theory Spec2Isabelle
  imports Complex_Main "HOL-Library.Word" "HOL-Library.Signed_Division"
begin

section \<open>Conventions of the embedding\<close>

text \<open>
  The program is \<^verbatim>\<open>src/pong4k.py\<close>. Python integers are modelled as \<open>int\<close>. The
  velocity of the ball is a pair of real numbers, and the formulas that compute it are
  read as exact arithmetic; no statement below depends on how doubles round them.

  What the program takes from outside its source is a parameter or is written out here
  after the library's behaviour:
  \<^item> the float addition of \<open>Ball.move\<close> and the conversion of the float sum to an integer
    coordinate by \<open>pygame.Rect\<close> are parameters (\<open>rect_numerics\<close>);
  \<^item> the float operations of the tone generator are parameters (\<open>float_ops\<close>) over floats
    that can be infinite or NaN;
  \<^item> \<open>pygame.Rect\<close> holds 32-bit C integers: an assigned Python integer that does not fit
    raises \<open>TypeError\<close>, and the additions inside \<open>clamp_ip\<close> wrap around;
  \<^item> random draws are arguments of the functions that consume them, and calls into the
    sound engine are returned as a list of emitted sounds.
\<close>

subsection \<open>Game constants (lines 43-48)\<close>

definition WIDTH :: int where "WIDTH = 800"
definition HEIGHT :: int where "HEIGHT = 600"
definition PADDLE_WIDTH :: int where "PADDLE_WIDTH = 15"
definition PADDLE_HEIGHT :: int where "PADDLE_HEIGHT = 100"
definition BALL_SIZE :: int where "BALL_SIZE = 15"
definition BALL_SPEED :: int where "BALL_SPEED = 7"
definition MAX_ANGLE :: real where "MAX_ANGLE = pi / 3"

subsection \<open>Conversion of a float to an integer\<close>

text \<open>Python's \<open>int(f)\<close> on a finite float, and C's cast: truncation towards
  zero.\<close>

definition py_int :: "real \<Rightarrow> int" where
  "py_int r = (if 0 \<le> r then \<lfloor>r\<rfloor> else \<lceil>r\<rceil>)"

subsection \<open>Exceptions\<close>

datatype error = OverflowError | ValueError | TypeError

subsection \<open>pygame.Rect\<close>

text \<open>The value of a C \<open>int\<close> computation: wrap-around to 32 bits, two's complement.\<close>

definition c_int :: "int \<Rightarrow> int" where
  "c_int k = signed_take_bit 31 k"

definition fits_c_int :: "int \<Rightarrow> bool" where
  "fits_c_int k \<longleftrightarrow> - 2147483648 \<le> k \<and> k \<le> 2147483647"

record rect =
  rect_x :: int
  rect_y :: int
  rect_w :: int
  rect_h :: int

definition Rect :: "int \<Rightarrow> int \<Rightarrow> int \<Rightarrow> int \<Rightarrow> rect" where
  "Rect x y w h = \<lparr>rect_x = x, rect_y = y, rect_w = w, rect_h = h\<rparr>"

definition rect_left :: "rect \<Rightarrow> int" where "rect_left r = rect_x r"
definition rect_top :: "rect \<Rightarrow> int" where "rect_top r = rect_y r"
definition rect_right :: "rect \<Rightarrow> int" where "rect_right r = rect_x r + rect_w r"
definition rect_bottom :: "rect \<Rightarrow> int" where "rect_bottom r = rect_y r + rect_h r"
definition rect_centerx :: "rect \<Rightarrow> int" where "rect_centerx r = rect_x r + rect_w r div 2"
definition rect_centery :: "rect \<Rightarrow> int" where "rect_centery r = rect_y r + rect_h r div 2"

text \<open>Assignments to the virtual attributes \<open>left\<close>, \<open>right\<close> and \<open>center\<close> move the
  rectangle and keep its size.\<close>

text \<open>\<open>rect.y = v\<close> for a Python integer \<open>v\<close>.\<close>

definition set_y :: "rect \<Rightarrow> int \<Rightarrow> error + rect" where
  "set_y r v = (if fits_c_int v then Inr (r\<lparr>rect_y := v\<rparr>) else Inl TypeError)"

definition set_left :: "rect \<Rightarrow> int \<Rightarrow> rect" where
  "set_left r v = r\<lparr>rect_x := v\<rparr>"

definition set_right :: "rect \<Rightarrow> int \<Rightarrow> rect" where
  "set_right r v = r\<lparr>rect_x := v - rect_w r\<rparr>"

definition set_center :: "rect \<Rightarrow> int \<times> int \<Rightarrow> rect" where
  "set_center r c = r\<lparr>rect_x := fst c - rect_w r div 2, rect_y := snd c - rect_h r div 2\<rparr>"

text \<open>\<open>colliderect\<close>: rectangles of zero width or height collide with nothing; otherwise
  the interiors must overlap (touching edges do not collide).\<close>

definition colliderect :: "rect \<Rightarrow> rect \<Rightarrow> bool" where
  "colliderect a b =
     (if rect_w a = 0 \<or> rect_h a = 0 \<or> rect_w b = 0 \<or> rect_h b = 0 then False
      else min (rect_x a) (rect_x a + rect_w a) < max (rect_x b) (rect_x b + rect_w b)
         \<and> min (rect_y a) (rect_y a + rect_h a) < max (rect_y b) (rect_y b + rect_h b)
         \<and> max (rect_x a) (rect_x a + rect_w a) > min (rect_x b) (rect_x b + rect_w b)
         \<and> max (rect_y a) (rect_y a + rect_h a) > min (rect_y b) (rect_y b + rect_h b))"

text \<open>\<open>collidepoint\<close>: left and top edges are inside, right and bottom edges are not.\<close>

definition collidepoint :: "rect \<Rightarrow> int \<times> int \<Rightarrow> bool" where
  "collidepoint r p =
     (rect_x r \<le> fst p \<and> fst p < rect_x r + rect_w r
      \<and> rect_y r \<le> snd p \<and> snd p < rect_y r + rect_h r)"

text \<open>\<open>clamp_ip\<close>: move the rectangle inside the argument; a rectangle too large for
  the argument is centred in it (C division, hence \<open>sdiv\<close>). The sums are C \<open>int\<close>
  additions and wrap around.\<close>

definition clamp_axis :: "int \<Rightarrow> int \<Rightarrow> int \<Rightarrow> int \<Rightarrow> int" where
  "clamp_axis p s bp bs =
     (if s \<ge> bs then c_int (c_int (bp + bs sdiv 2) - s sdiv 2)
      else if p < bp then bp
      else if c_int (p + s) > c_int (bp + bs) then c_int (c_int (bp + bs) - s)
      else p)"

definition clamp_ip :: "rect \<Rightarrow> rect \<Rightarrow> rect" where
  "clamp_ip r b =
     r\<lparr>rect_x := clamp_axis (rect_x r) (rect_w r) (rect_x b) (rect_w b),
       rect_y := clamp_axis (rect_y r) (rect_h r) (rect_y b) (rect_h b)\<rparr>"

subsection \<open>Paddle (lines 58-72)\<close>

record paddle =
  paddle_rect :: rect
  paddle_speed :: int

definition Paddle_init :: "int \<Rightarrow> int \<Rightarrow> paddle" where
  "Paddle_init x y = \<lparr>paddle_rect = Rect x y PADDLE_WIDTH PADDLE_HEIGHT, paddle_speed = 7\<rparr>"

text \<open>\<open>self.rect.y += self.speed\<close> reads the coordinate, adds in Python integers and
  assigns the result, which must fit a C \<open>int\<close>.\<close>

definition move_ai :: "paddle \<Rightarrow> int \<Rightarrow> error + paddle" where
  "move_ai p ball_y =
     (let r = paddle_rect p;
          moved = (if c_int (rect_centery r) < ball_y - 10 then set_y r (rect_y r + paddle_speed p)
                   else if c_int (rect_centery r) > ball_y + 10 then set_y r (rect_y r - paddle_speed p)
                   else Inr r)
      in case moved of
           Inl e \<Rightarrow> Inl e
         | Inr r1 \<Rightarrow> Inr (p\<lparr>paddle_rect := clamp_ip r1 (Rect 0 0 WIDTH HEIGHT)\<rparr>))"

definition move_mouse :: "paddle \<Rightarrow> int \<Rightarrow> error + paddle" where
  "move_mouse p mouse_y =
     (case set_y (paddle_rect p) (mouse_y - PADDLE_HEIGHT div 2) of
        Inl e \<Rightarrow> Inl e
      | Inr r1 \<Rightarrow> Inr (p\<lparr>paddle_rect := clamp_ip r1 (Rect 0 0 WIDTH HEIGHT)\<rparr>))"

subsection \<open>Ball (lines 80-98)\<close>

record ball =
  ball_rect :: rect
  vx :: real
  vy :: real

text \<open>\<open>reset\<close> draws \<open>angle = random.uniform(-MAX_ANGLE, MAX_ANGLE)\<close> and
  \<open>direction = random.choice([-1, 1])\<close>; the two draws are arguments here.\<close>

type_synonym draw = "real \<times> int"

definition reset :: "ball \<Rightarrow> draw \<Rightarrow> ball" where
  "reset b d =
     (let angle = fst d; direction = snd d
      in b\<lparr>ball_rect := set_center (ball_rect b) (WIDTH div 2, HEIGHT div 2),
            vx := real_of_int (direction * BALL_SPEED) * cos angle,
            vy := real_of_int BALL_SPEED * sin angle\<rparr>)"

text \<open>The constructor builds the rectangle and calls \<open>reset\<close>, which gives \<open>vx\<close> and
  \<open>vy\<close> their first values (the zeros below are overwritten).\<close>

definition Ball_init :: "int \<Rightarrow> int \<Rightarrow> draw \<Rightarrow> ball" where
  "Ball_init x y d = reset \<lparr>ball_rect = Rect x y BALL_SIZE BALL_SIZE, vx = 0, vy = 0\<rparr> d"

text \<open>\<open>self.rect.x += self.vx\<close>: Python adds the integer coordinate and the float, and
  the rectangle converts the float sum back to an integer. Neither operation is part of
  the program: the rounding of the sum is the float arithmetic's, and the conversion is
  pygame's and differs between its versions (truncation towards zero, or rounding to
  the nearest integer). Both are parameters.\<close>

record rect_numerics =
  int_plus_float :: "int \<Rightarrow> real \<Rightarrow> real"
  float_to_c_int :: "real \<Rightarrow> int"

definition move :: "rect_numerics \<Rightarrow> ball \<Rightarrow> ball" where
  "move N b =
     (let r1 = (ball_rect b)\<lparr>rect_x :=
                 float_to_c_int N (int_plus_float N (rect_x (ball_rect b)) (vx b))\<rparr>;
          r2 = r1\<lparr>rect_y := float_to_c_int N (int_plus_float N (rect_y r1) (vy b))\<rparr>
      in b\<lparr>ball_rect := r2\<rparr>)"

text \<open>Two instances: the sum is exact and the conversion truncates towards zero (C's
  cast), or rounds to the nearest integer.\<close>

definition truncating :: rect_numerics where
  "truncating = \<lparr>int_plus_float = (\<lambda>k v. real_of_int k + v), float_to_c_int = py_int\<rparr>"

definition rounding :: rect_numerics where
  "rounding = \<lparr>int_plus_float = (\<lambda>k v. real_of_int k + v), float_to_c_int = round\<rparr>"

definition bounce_y :: "ball \<Rightarrow> ball" where
  "bounce_y b = b\<lparr>vy := - vy b\<rparr>"

subsection \<open>SoundEngine (lines 9-38)\<close>

text \<open>A Python float is a finite number, an infinity or NaN. The arithmetic on floats
  and \<open>math.sin\<close> (which raises \<open>ValueError\<close> at an infinity) belong to the language
  runtime and are parameters; \<open>math_pi\<close> is the float \<open>math.pi\<close>.\<close>

datatype pyfloat = Fin real | PosInf | NegInf | NaN

record float_ops =
  fl_mul :: "pyfloat \<Rightarrow> pyfloat \<Rightarrow> pyfloat"
  fl_div :: "pyfloat \<Rightarrow> pyfloat \<Rightarrow> pyfloat"
  math_sin :: "pyfloat \<Rightarrow> error + pyfloat"
  math_pi :: pyfloat

text \<open>\<open>int(f)\<close>: truncation towards zero; an infinity raises \<open>OverflowError\<close>, NaN raises
  \<open>ValueError\<close>.\<close>

definition int_of_float :: "pyfloat \<Rightarrow> error + int" where
  "int_of_float f =
     (case f of Fin r \<Rightarrow> Inr (py_int r)
              | PosInf \<Rightarrow> Inl OverflowError
              | NegInf \<Rightarrow> Inl OverflowError
              | NaN \<Rightarrow> Inl ValueError)"

definition sample_rate :: int where "sample_rate = 22050"

text \<open>The body of the loop of \<open>_generate_tone\<close> for index \<open>i\<close> (lines 21-23).\<close>

definition tone_sample :: "float_ops \<Rightarrow> pyfloat \<Rightarrow> pyfloat \<Rightarrow> nat \<Rightarrow> error + int" where
  "tone_sample F frequency volume i =
     (let t = fl_div F (Fin (real i)) (Fin (real_of_int sample_rate))
      in case math_sin F (fl_mul F (fl_mul F (fl_mul F (Fin 2) (math_pi F)) frequency) t) of
           Inl e \<Rightarrow> Inl e
         | Inr val \<Rightarrow> int_of_float (fl_mul F (fl_mul F volume (Fin 32767)) val))"

text \<open>The loop over \<open>range(n_samples)\<close>: the first exception ends it.\<close>

fun tone_loop :: "float_ops \<Rightarrow> pyfloat \<Rightarrow> pyfloat \<Rightarrow> nat list \<Rightarrow> error + int list" where
  "tone_loop F frequency volume [] = Inr []"
| "tone_loop F frequency volume (i # rest) =
     (case tone_sample F frequency volume i of
        Inl e \<Rightarrow> Inl e
      | Inr x \<Rightarrow>
          (case tone_loop F frequency volume rest of
             Inl e \<Rightarrow> Inl e
           | Inr xs \<Rightarrow> Inr (x # xs)))"

text \<open>\<open>array.array('h', samples)\<close>: signed 16-bit items; a value out of range raises
  \<open>OverflowError\<close>.\<close>

definition array_h :: "int list \<Rightarrow> error + 16 word list" where
  "array_h samples =
     (if list_all (\<lambda>v. - 32768 \<le> v \<and> v \<le> 32767) samples
      then Inr (map word_of_int samples) else Inl OverflowError)"

text \<open>\<open>range(n_samples)\<close> is empty for a negative \<open>n_samples\<close>.\<close>

definition generate_tone :: "float_ops \<Rightarrow> pyfloat \<Rightarrow> pyfloat \<Rightarrow> pyfloat \<Rightarrow> error + 16 word list" where
  "generate_tone F frequency duration volume =
     (case int_of_float (fl_mul F (Fin (real_of_int sample_rate)) duration) of
        Inl e \<Rightarrow> Inl e
      | Inr n_samples \<Rightarrow>
          (case tone_loop F frequency volume [0..<nat n_samples] of
             Inl e \<Rightarrow> Inl e
           | Inr samples \<Rightarrow> array_h samples))"

text \<open>The doubles that the literals \<open>0.1\<close>, \<open>0.2\<close> and \<open>0.3\<close> denote.\<close>

definition double_0_1 :: real where
  "double_0_1 = 3602879701896397 / 36028797018963968"

definition double_0_2 :: real where
  "double_0_2 = 3602879701896397 / 18014398509481984"

definition double_0_3 :: real where
  "double_0_3 = 5404319552844595 / 18014398509481984"

datatype sound = HitPaddle | Score

definition sound_buffer :: "float_ops \<Rightarrow> sound \<Rightarrow> error + 16 word list" where
  "sound_buffer F s =
     (case s of HitPaddle \<Rightarrow> generate_tone F (Fin 440) (Fin double_0_1) (Fin double_0_2)
              | Score \<Rightarrow> generate_tone F (Fin 220) (Fin double_0_2) (Fin double_0_3))"





subsection \<open>Events and per-frame input\<close>

datatype key = K_y | K_n | K_other

datatype event = QUIT | MOUSEBUTTONDOWN "int \<times> int" | KEYDOWN key | OTHER

text \<open>What one pass of a loop reads from the outside: the event queue, the pointer
  position, and the random draws of the (at most two) calls of \<open>reset\<close> in the scoring
  code.\<close>

record frame =
  events :: "event list"
  mouse_pos :: "int \<times> int"
  draw1 :: draw
  draw2 :: draw

subsection \<open>The match: one pass of the loop of \<open>game\<close> (lines 173-256)\<close>

record game_state =
  left_paddle :: paddle
  right_paddle :: paddle
  game_ball :: ball
  left_score :: int
  right_score :: int

definition game_init :: "draw \<Rightarrow> game_state" where
  "game_init d =
     \<lparr>left_paddle = Paddle_init 30 (HEIGHT div 2 - PADDLE_HEIGHT div 2),
      right_paddle = Paddle_init (WIDTH - 30 - PADDLE_WIDTH) (HEIGHT div 2 - PADDLE_HEIGHT div 2),
      game_ball = Ball_init (WIDTH div 2 - BALL_SIZE div 2) (HEIGHT div 2 - BALL_SIZE div 2) d,
      left_score = 0,
      right_score = 0\<rparr>"

text \<open>Lines 184-186: the event loop of the match returns at the first \<open>QUIT\<close>.\<close>

fun game_events :: "event list \<Rightarrow> bool" where
  "game_events [] = False"
| "game_events (e # es) = (if e = QUIT then True else game_events es)"

text \<open>Lines 199-200.\<close>

definition wall_collision :: "ball \<Rightarrow> ball" where
  "wall_collision b =
     (if rect_top (ball_rect b) \<le> 0 \<or> rect_bottom (ball_rect b) \<ge> HEIGHT
      then bounce_y b else b)"

text \<open>Lines 206-207 and 219-220: the offset from the paddle centre and its clamp.\<close>

definition raw_offset :: "rect \<Rightarrow> rect \<Rightarrow> real" where
  "raw_offset br pr =
     real_of_int (rect_centery br - rect_centery pr) / (real_of_int PADDLE_HEIGHT / 2)"

definition hit_offset :: "rect \<Rightarrow> rect \<Rightarrow> real" where
  "hit_offset br pr = max (- 1) (min 1 (raw_offset br pr))"

text \<open>Lines 204-215.\<close>

definition left_paddle_collision :: "ball \<Rightarrow> paddle \<Rightarrow> ball \<times> sound list" where
  "left_paddle_collision b lp =
     (if colliderect (ball_rect b) (paddle_rect lp) \<and> vx b < 0 then
        let offset = hit_offset (ball_rect b) (paddle_rect lp);
            angle = offset * MAX_ANGLE
        in (b\<lparr>vx := real_of_int BALL_SPEED * cos angle,
              vy := real_of_int BALL_SPEED * sin angle,
              ball_rect := set_left (ball_rect b) (rect_right (paddle_rect lp) + 1)\<rparr>,
            [HitPaddle])
      else (b, []))"

text \<open>Lines 218-225.\<close>

definition right_paddle_collision :: "ball \<Rightarrow> paddle \<Rightarrow> ball \<times> sound list" where
  "right_paddle_collision b rp =
     (if colliderect (ball_rect b) (paddle_rect rp) \<and> vx b > 0 then
        let offset = hit_offset (ball_rect b) (paddle_rect rp);
            angle = offset * MAX_ANGLE
        in (b\<lparr>vx := - real_of_int BALL_SPEED * cos angle,
              vy := real_of_int BALL_SPEED * sin angle,
              ball_rect := set_right (ball_rect b) (rect_left (paddle_rect rp) - 1)\<rparr>,
            [HitPaddle])
      else (b, []))"

text \<open>Lines 228-235: two consecutive \<open>if\<close> statements, the second reading the ball as
  the first left it.\<close>

definition score_left_exit :: "game_state \<Rightarrow> draw \<Rightarrow> game_state \<times> sound list" where
  "score_left_exit g d =
     (if rect_left (ball_rect (game_ball g)) \<le> 0
      then (g\<lparr>right_score := right_score g + 1, game_ball := reset (game_ball g) d\<rparr>, [Score])
      else (g, []))"

definition score_right_exit :: "game_state \<Rightarrow> draw \<Rightarrow> game_state \<times> sound list" where
  "score_right_exit g d =
     (if rect_right (ball_rect (game_ball g)) \<ge> WIDTH
      then (g\<lparr>left_score := left_score g + 1, game_ball := reset (game_ball g) d\<rparr>, [Score])
      else (g, []))"

definition scoring :: "game_state \<Rightarrow> draw \<Rightarrow> draw \<Rightarrow> game_state \<times> sound list" where
  "scoring g d1 d2 =
     (let (g1, s1) = score_left_exit g d1;
          (g2, s2) = score_right_exit g1 d2
      in (g2, s1 @ s2))"

text \<open>The ball as the scoring code of lines 228-235 finds it: moved, reflected at the
  walls, and through both paddle responses.\<close>

definition ball_at_scoring :: "rect_numerics \<Rightarrow> ball \<Rightarrow> paddle \<Rightarrow> paddle \<Rightarrow> ball \<times> sound list" where
  "ball_at_scoring N b lp rp =
     (let b1 = wall_collision (move N b);
          (b2, s2) = left_paddle_collision b1 lp;
          (b3, s3) = right_paddle_collision b2 rp
      in (b3, s2 @ s3))"

text \<open>How one pass of the loop ends: the loop goes on, the game-over check of lines
  238-240 hands over to the prompt, the window was closed (\<open>return False\<close>), or an
  exception left the loop.\<close>

datatype tick_result =
  Running game_state | MatchOver game_state | WindowClosed | Raised error

definition tick :: "rect_numerics \<Rightarrow> frame \<Rightarrow> game_state \<Rightarrow> tick_result \<times> sound list" where
  "tick N f g =
     (if game_events (events f) then (WindowClosed, [])
      else
        case move_mouse (right_paddle g) (snd (mouse_pos f)) of
          Inl e \<Rightarrow> (Raised e, [])
        | Inr rp \<Rightarrow>
           (case move_ai (left_paddle g) (rect_centery (ball_rect (game_ball g))) of
              Inl e \<Rightarrow> (Raised e, [])
            | Inr lp \<Rightarrow>
                let (b3, s3) = ball_at_scoring N (game_ball g) lp rp;
                    (g1, s4) = scoring (g\<lparr>left_paddle := lp, right_paddle := rp, game_ball := b3\<rparr>)
                                 (draw1 f) (draw2 f)
                in if left_score g1 \<ge> 5 \<or> right_score g1 \<ge> 5
                   then (MatchOver g1, s3 @ s4)
                   else (Running g1, s3 @ s4)))"

text \<open>The states the loop of \<open>game\<close> can be in at the start of a pass.\<close>

inductive reachable :: "rect_numerics \<Rightarrow> game_state \<Rightarrow> bool" for N :: rect_numerics where
  reach_init: "reachable N (game_init d)"
| reach_tick: "reachable N g \<Longrightarrow> tick N f g = (Running g', s) \<Longrightarrow> reachable N g'"

subsection \<open>Menu, game-over prompt and \<open>main\<close> (lines 106-168, 261-276)\<close>

text \<open>The event loop of one pass of \<open>main_menu\<close>: \<open>return "game"\<close>, \<open>sys.exit()\<close>, or
  the queue is used up and the menu is drawn again. The rectangles of the two labels
  come from the font renderer and are parameters.\<close>

datatype menu_result = Return string | SysExit

fun main_menu_events :: "rect \<Rightarrow> rect \<Rightarrow> event list \<Rightarrow> menu_result option" where
  "main_menu_events start_rect quit_rect [] = None"
| "main_menu_events start_rect quit_rect (e # es) =
     (case e of
        QUIT \<Rightarrow> Some SysExit
      | MOUSEBUTTONDOWN pos \<Rightarrow>
          if collidepoint start_rect pos then Some (Return ''game'')
          else if collidepoint quit_rect pos then Some SysExit
          else main_menu_events start_rect quit_rect es
      | _ \<Rightarrow> main_menu_events start_rect quit_rect es)"

text \<open>The event loop of one pass of \<open>game_over_prompt\<close>.\<close>

fun game_over_prompt_events :: "event list \<Rightarrow> bool option" where
  "game_over_prompt_events [] = None"
| "game_over_prompt_events (e # es) =
     (case e of
        QUIT \<Rightarrow> Some False
      | KEYDOWN k \<Rightarrow>
          if k = K_y then Some True
          else if k = K_n then Some False
          else game_over_prompt_events es
      | _ \<Rightarrow> game_over_prompt_events es)"

text \<open>The nesting of the loop bodies of \<open>main\<close>, \<open>main_menu\<close>, \<open>game\<close> and
  \<open>game_over_prompt\<close> as one step per pass of the innermost running loop. \<open>Terminated\<close> is
  \<open>pygame.quit(); sys.exit()\<close>; \<open>Crashed\<close> is an exception that nothing catches.\<close>

datatype screen = Menu | Match game_state | GameOverPrompt | Terminated | Crashed error

fun main_step :: "rect_numerics \<Rightarrow> rect \<Rightarrow> rect \<Rightarrow> screen \<Rightarrow> frame \<Rightarrow> screen" where
  "main_step N start_rect quit_rect Menu f =
     (case main_menu_events start_rect quit_rect (events f) of
        None \<Rightarrow> Menu
      | Some SysExit \<Rightarrow> Terminated
      | Some (Return action) \<Rightarrow>
          if action = ''game'' then Match (game_init (draw1 f)) else Menu)"
| "main_step N start_rect quit_rect (Match g) f =
     (case fst (tick N f g) of
        Running g' \<Rightarrow> Match g'
      | MatchOver g' \<Rightarrow> GameOverPrompt
      | WindowClosed \<Rightarrow> Terminated
      | Raised e \<Rightarrow> Crashed e)"
| "main_step N start_rect quit_rect GameOverPrompt f =
     (case game_over_prompt_events (events f) of
        None \<Rightarrow> GameOverPrompt
      | Some restart \<Rightarrow> if restart then Menu else Terminated)"
| "main_step N start_rect quit_rect Terminated f = Terminated"
| "main_step N start_rect quit_rect (Crashed e) f = Crashed e"

fun main_run :: "rect_numerics \<Rightarrow> rect \<Rightarrow> rect \<Rightarrow> screen \<Rightarrow> frame list \<Rightarrow> screen" where
  "main_run N start_rect quit_rect s [] = s"
| "main_run N start_rect quit_rect s (f # fs) =
     main_run N start_rect quit_rect (main_step N start_rect quit_rect s f) fs"

subsection \<open>Notions used to state the properties\<close>

text \<open>What every pass of the match loop preserves: the ball keeps the size its
  constructor gave it, the left paddle keeps its height and speed and stays in the
  playfield (the right paddle is placed anew from the pointer in every pass), and both
  scores are between 0 and 4 while the loop runs.\<close>

definition paddle_inv :: "paddle \<Rightarrow> bool" where
  "paddle_inv p \<longleftrightarrow>
     rect_h (paddle_rect p) = PADDLE_HEIGHT \<and> paddle_speed p = 7
     \<and> 0 \<le> rect_y (paddle_rect p) \<and> rect_y (paddle_rect p) \<le> HEIGHT - PADDLE_HEIGHT"

definition match_inv :: "game_state \<Rightarrow> bool" where
  "match_inv g \<longleftrightarrow>
     rect_w (ball_rect (game_ball g)) = BALL_SIZE
     \<and> paddle_inv (left_paddle g)
     \<and> 0 \<le> left_score g \<and> left_score g < 5
     \<and> 0 \<le> right_score g \<and> right_score g < 5"

text \<open>The specification's wording "the ball fully exits the left (right) edge": the
  whole rectangle is beyond the edge of the playfield.\<close>

definition fully_exited_left :: "rect \<Rightarrow> bool" where
  "fully_exited_left r \<longleftrightarrow> rect_right r \<le> 0"

definition fully_exited_right :: "rect \<Rightarrow> bool" where
  "fully_exited_right r \<longleftrightarrow> WIDTH \<le> rect_left r"



text \<open>The inputs of the specification's screen-flow state machine, read off an event:
  a start click, a quit click, window-close, the affirmative and the negative key.\<close>

definition start_click :: "rect \<Rightarrow> event \<Rightarrow> bool" where
  "start_click start_rect e =
     (case e of MOUSEBUTTONDOWN pos \<Rightarrow> collidepoint start_rect pos | _ \<Rightarrow> False)"

definition quit_click :: "rect \<Rightarrow> rect \<Rightarrow> event \<Rightarrow> bool" where
  "quit_click start_rect quit_rect e =
     (case e of MOUSEBUTTONDOWN pos \<Rightarrow>
                  \<not> collidepoint start_rect pos \<and> collidepoint quit_rect pos
              | _ \<Rightarrow> False)"

definition menu_input :: "rect \<Rightarrow> rect \<Rightarrow> event \<Rightarrow> bool" where
  "menu_input start_rect quit_rect e \<longleftrightarrow>
     e = QUIT \<or> start_click start_rect e \<or> quit_click start_rect quit_rect e"

definition prompt_input :: "event \<Rightarrow> bool" where
  "prompt_input e \<longleftrightarrow> e = QUIT \<or> e = KEYDOWN K_y \<or> e = KEYDOWN K_n"

section \<open>Basic facts\<close>

lemmas consts_defs =
  WIDTH_def HEIGHT_def PADDLE_WIDTH_def PADDLE_HEIGHT_def BALL_SIZE_def BALL_SPEED_def

lemma c_int_id: "fits_c_int k \<Longrightarrow> c_int k = k"
  by (simp add: fits_c_int_def c_int_def signed_take_bit_int_eq_self)

section \<open>Paddle\<close>


lemma c_int_small: "c_int 600 = 600" "c_int 500 = 500" "c_int 800 = 800"
  by (simp_all add: c_int_id fits_c_int_def)

lemma clamp_y_inside:
  assumes "fits_c_int y" "y \<le> 2147483547"
  shows "0 \<le> clamp_axis y 100 0 600 \<and> clamp_axis y 100 0 600 \<le> 500"
proof -
  have "fits_c_int (y + 100)" using assms by (simp add: fits_c_int_def)
  then have "c_int (y + 100) = y + 100" by (rule c_int_id)
  then show ?thesis by (simp add: clamp_axis_def c_int_small)
qed


lemma clamp_ip_y:
  "rect_y (clamp_ip r (Rect 0 0 800 600)) = clamp_axis (rect_y r) (rect_h r) 0 600"
  "rect_h (clamp_ip r b) = rect_h r" "rect_w (clamp_ip r b) = rect_w r"
  by (simp_all add: clamp_ip_def Rect_def)


lemma move_ai_ok:
  assumes h: "rect_h (paddle_rect p) = PADDLE_HEIGHT"
    and y: "- 1000000000 \<le> rect_y (paddle_rect p)" "rect_y (paddle_rect p) \<le> 1000000000"
    and s: "- 1000000000 \<le> paddle_speed p" "paddle_speed p \<le> 1000000000"
  shows "\<exists>p'. move_ai p b = Inr p'
           \<and> 0 \<le> rect_y (paddle_rect p') \<and> rect_y (paddle_rect p') \<le> HEIGHT - PADDLE_HEIGHT
           \<and> rect_h (paddle_rect p') = PADDLE_HEIGHT \<and> paddle_speed p' = paddle_speed p"
proof -
  have f: "\<And>v. - 2000000000 \<le> v \<Longrightarrow> v \<le> 2000000000 \<Longrightarrow> fits_c_int v"
    by (simp add: fits_c_int_def)
  have c: "\<And>v. - 2000000000 \<le> v \<Longrightarrow> v \<le> 2000000000 \<Longrightarrow>
      0 \<le> clamp_axis v 100 0 600 \<and> clamp_axis v 100 0 600 \<le> 500"
    by (intro clamp_y_inside) (simp_all add: fits_c_int_def)
  have h': "rect_h (paddle_rect p) = 100" using h by (simp add: consts_defs)
  have up: "fits_c_int (rect_y (paddle_rect p) + paddle_speed p)"
    and dn: "fits_c_int (rect_y (paddle_rect p) - paddle_speed p)"
    using y s by (auto intro!: f)
  have cu: "0 \<le> clamp_axis (rect_y (paddle_rect p) + paddle_speed p) 100 0 600
      \<and> clamp_axis (rect_y (paddle_rect p) + paddle_speed p) 100 0 600 \<le> 500"
    using y s by (intro c) auto
  have cd: "0 \<le> clamp_axis (rect_y (paddle_rect p) - paddle_speed p) 100 0 600
      \<and> clamp_axis (rect_y (paddle_rect p) - paddle_speed p) 100 0 600 \<le> 500"
    using y s by (intro c) auto
  have c0: "0 \<le> clamp_axis (rect_y (paddle_rect p)) 100 0 600
      \<and> clamp_axis (rect_y (paddle_rect p)) 100 0 600 \<le> 500"
    using y by (intro c) auto
  show ?thesis
    using up dn cu cd c0 h'
    by (simp add: move_ai_def set_y_def Let_def clamp_ip_y consts_defs)
qed




section \<open>Trigonometry of the velocity\<close>

lemma hit_offset_range: "- 1 \<le> hit_offset br pr \<and> hit_offset br pr \<le> 1"
  by (simp add: hit_offset_def)

lemma hit_angle_range:
  "- MAX_ANGLE \<le> hit_offset br pr * MAX_ANGLE \<and> hit_offset br pr * MAX_ANGLE \<le> MAX_ANGLE"
proof -
  have p: "0 \<le> MAX_ANGLE" by (simp add: MAX_ANGLE_def)
  have "hit_offset br pr * MAX_ANGLE \<le> 1 * MAX_ANGLE"
    using hit_offset_range p by (intro mult_right_mono) auto
  moreover have "(- 1) * MAX_ANGLE \<le> hit_offset br pr * MAX_ANGLE"
    using hit_offset_range p by (intro mult_right_mono) auto
  ultimately show ?thesis by simp
qed

lemma cos_pos_in_range:
  assumes "- MAX_ANGLE \<le> a" "a \<le> MAX_ANGLE"
  shows "0 < cos a"
proof -
  have "MAX_ANGLE < pi / 2" using pi_gt_zero by (simp add: MAX_ANGLE_def)
  then show ?thesis using assms by (intro cos_gt_zero_pi) auto
qed

section \<open>Centre of a rectangle\<close>

lemma set_center_centre:
  "rect_centerx (set_center r c) = fst c" "rect_centery (set_center r c) = snd c"
  "rect_w (set_center r c) = rect_w r" "rect_h (set_center r c) = rect_h r"
  by (simp_all add: set_center_def rect_centerx_def rect_centery_def)

section \<open>Hit offset\<close>



section \<open>Direction guard of the collision response\<close>

lemma move_vx: "vx (move N b) = vx b"
  by (simp add: move_def Let_def)

lemma wall_collision_vx: "vx (wall_collision b) = vx b"
  by (simp add: wall_collision_def bounce_y_def)

text \<open>
  Claim C8. The response of the left paddle leaves the ball untouched and emits nothing
  when \<open>vx \<ge> 0\<close>, that of the right paddle when \<open>vx \<le> 0\<close>, overlap or not; a response
  that emits the hit sound had \<open>vx < 0\<close> (left) or \<open>vx > 0\<close> (right). In particular, on
  the pass after a bounce (after \<open>move\<close> and the wall check) the same side's response
  does not fire again, wherever the paddle then is.
\<close>

theorem no_bounce_when_moving_away:
  "(0 \<le> vx b \<longrightarrow> left_paddle_collision b lp = (b, []))
   \<and> (vx b \<le> 0 \<longrightarrow> right_paddle_collision b rp = (b, []))
   \<and> (snd (left_paddle_collision b lp) \<noteq> [] \<longrightarrow> vx b < 0)
   \<and> (snd (right_paddle_collision b rp) \<noteq> [] \<longrightarrow> 0 < vx b)
   \<and> (colliderect (ball_rect b) (paddle_rect lp) \<and> vx b < 0 \<longrightarrow>
        left_paddle_collision (wall_collision (move N (fst (left_paddle_collision b lp)))) lp'
          = (wall_collision (move N (fst (left_paddle_collision b lp))), []))
   \<and> (colliderect (ball_rect b) (paddle_rect rp) \<and> 0 < vx b \<longrightarrow>
        right_paddle_collision (wall_collision (move N (fst (right_paddle_collision b rp)))) rp'
          = (wall_collision (move N (fst (right_paddle_collision b rp))), []))"
proof -
  have l: "0 < cos (hit_offset (ball_rect b) (paddle_rect lp) * MAX_ANGLE)"
    using hit_angle_range cos_pos_in_range by blast
  have r: "0 < cos (hit_offset (ball_rect b) (paddle_rect rp) * MAX_ANGLE)"
    using hit_angle_range cos_pos_in_range by blast
  have a: "(0 \<le> vx b \<longrightarrow> left_paddle_collision b lp = (b, []))
   \<and> (vx b \<le> 0 \<longrightarrow> right_paddle_collision b rp = (b, []))
   \<and> (snd (left_paddle_collision b lp) \<noteq> [] \<longrightarrow> vx b < 0)
   \<and> (snd (right_paddle_collision b rp) \<noteq> [] \<longrightarrow> 0 < vx b)"
    by (simp add: left_paddle_collision_def right_paddle_collision_def Let_def)
  have gen_l: "\<And>c q. 0 \<le> vx c \<Longrightarrow> left_paddle_collision c q = (c, [])"
    by (simp add: left_paddle_collision_def)
  have gen_r: "\<And>c q. vx c \<le> 0 \<Longrightarrow> right_paddle_collision c q = (c, [])"
    by (simp add: right_paddle_collision_def)
  have bl: "colliderect (ball_rect b) (paddle_rect lp) \<and> vx b < 0 \<Longrightarrow>
      0 \<le> vx (wall_collision (move N (fst (left_paddle_collision b lp))))"
    using l by (simp add: wall_collision_vx move_vx left_paddle_collision_def Let_def BALL_SPEED_def)
  have br: "colliderect (ball_rect b) (paddle_rect rp) \<and> 0 < vx b \<Longrightarrow>
      vx (wall_collision (move N (fst (right_paddle_collision b rp)))) \<le> 0"
    using r by (simp add: wall_collision_vx move_vx right_paddle_collision_def Let_def BALL_SPEED_def)
  show ?thesis using a gen_l [OF bl] gen_r [OF br] by blast
qed

theorem no_bounce_when_moving_away_witness:
  "colliderect (Rect 40 293 15 15) (paddle_rect (Paddle_init 30 250))
   \<and> left_paddle_collision \<lparr>ball_rect = Rect 40 293 15 15, vx = 7, vy = 0\<rparr> (Paddle_init 30 250)
       = (\<lparr>ball_rect = Rect 40 293 15 15, vx = 7, vy = 0\<rparr>, [])
   \<and> colliderect (Rect 750 293 15 15) (paddle_rect (Paddle_init 755 250))
   \<and> right_paddle_collision \<lparr>ball_rect = Rect 750 293 15 15, vx = - 7, vy = 0\<rparr> (Paddle_init 755 250)
       = (\<lparr>ball_rect = Rect 750 293 15 15, vx = - 7, vy = 0\<rparr>, [])"
proof -
  have c: "colliderect (Rect 40 293 15 15) (paddle_rect (Paddle_init 30 250))"
    "colliderect (Rect 750 293 15 15) (paddle_rect (Paddle_init 755 250))"
    by (simp_all add: colliderect_def Rect_def Paddle_init_def consts_defs)
  show ?thesis
    using c
      no_bounce_when_moving_away [of "\<lparr>ball_rect = Rect 40 293 15 15, vx = 7, vy = 0\<rparr>"
        "Paddle_init 30 250" "Paddle_init 755 250" truncating "Paddle_init 30 250" "Paddle_init 755 250"]
      no_bounce_when_moving_away [of "\<lparr>ball_rect = Rect 750 293 15 15, vx = - 7, vy = 0\<rparr>"
        "Paddle_init 30 250" "Paddle_init 755 250" truncating "Paddle_init 30 250" "Paddle_init 755 250"]
    by simp
qed

section \<open>Scoring\<close>

lemma move_size: "rect_w (ball_rect (move N b)) = rect_w (ball_rect b)"
  by (simp add: move_def Let_def)

lemma wall_collision_rect: "ball_rect (wall_collision b) = ball_rect b"
  by (simp add: wall_collision_def bounce_y_def)

lemma left_paddle_collision_size:
  "rect_w (ball_rect (fst (left_paddle_collision b p))) = rect_w (ball_rect b)"
  by (simp add: left_paddle_collision_def set_left_def Let_def)

lemma right_paddle_collision_size:
  "rect_w (ball_rect (fst (right_paddle_collision b p))) = rect_w (ball_rect b)"
  by (simp add: right_paddle_collision_def set_right_def Let_def)

lemma reset_rect:
  "rect_w (ball_rect (reset b d)) = rect_w (ball_rect b)"
  "rect_x (ball_rect (reset b d)) = WIDTH div 2 - rect_w (ball_rect b) div 2"
  by (simp_all add: reset_def set_center_def Let_def)

lemma reset_centre:
  "rect_centerx (ball_rect (reset b d)) = WIDTH div 2"
  "rect_centery (ball_rect (reset b d)) = HEIGHT div 2"
  by (simp_all add: reset_def set_center_centre Let_def)

lemma scoring_cases:
  assumes "rect_w (ball_rect (game_ball g)) = BALL_SIZE"
  shows "scoring g d1 d2 =
     (if rect_left (ball_rect (game_ball g)) \<le> 0
      then (g\<lparr>right_score := right_score g + 1, game_ball := reset (game_ball g) d1\<rparr>, [Score])
      else if rect_right (ball_rect (game_ball g)) \<ge> WIDTH
      then (g\<lparr>left_score := left_score g + 1, game_ball := reset (game_ball g) d2\<rparr>, [Score])
      else (g, []))"
  using assms
  by (simp add: scoring_def score_left_exit_def score_right_exit_def rect_right_def
      reset_rect consts_defs)

text \<open>
  Claim C2, as the code has it. For a ball of the constructor's width, the right player
  scores exactly when the ball's left edge is at or beyond the left wall
  (\<open>rect.left \<le> 0\<close>) and the left player exactly when its right edge is at or beyond
  the right wall (\<open>rect.right \<ge> WIDTH\<close>); on either event exactly one score sound is
  emitted and the ball is reset, its centre at the centre of the playfield; otherwise
  nothing changes.
\<close>

theorem scoring_at_edges:
  assumes "rect_w (ball_rect (game_ball g)) = BALL_SIZE"
  shows "right_score (fst (scoring g d1 d2))
           = right_score g + (if rect_left (ball_rect (game_ball g)) \<le> 0 then 1 else 0)
       \<and> left_score (fst (scoring g d1 d2))
           = left_score g + (if rect_right (ball_rect (game_ball g)) \<ge> WIDTH then 1 else 0)
       \<and> (rect_left (ball_rect (game_ball g)) \<le> 0 \<longrightarrow>
            snd (scoring g d1 d2) = [Score]
            \<and> game_ball (fst (scoring g d1 d2)) = reset (game_ball g) d1)
       \<and> (rect_right (ball_rect (game_ball g)) \<ge> WIDTH \<longrightarrow>
            snd (scoring g d1 d2) = [Score]
            \<and> game_ball (fst (scoring g d1 d2)) = reset (game_ball g) d2)
       \<and> (rect_left (ball_rect (game_ball g)) \<le> 0 \<or> rect_right (ball_rect (game_ball g)) \<ge> WIDTH \<longrightarrow>
            rect_centerx (ball_rect (game_ball (fst (scoring g d1 d2)))) = WIDTH div 2
            \<and> rect_centery (ball_rect (game_ball (fst (scoring g d1 d2)))) = HEIGHT div 2)
       \<and> (0 < rect_left (ball_rect (game_ball g)) \<and> rect_right (ball_rect (game_ball g)) < WIDTH \<longrightarrow>
            scoring g d1 d2 = (g, []))"
proof -
  have x: "\<not> (rect_left (ball_rect (game_ball g)) \<le> 0 \<and> rect_right (ball_rect (game_ball g)) \<ge> WIDTH)"
    using assms by (simp add: rect_left_def rect_right_def consts_defs)
  show ?thesis
    using x by (auto simp add: scoring_cases [OF assms] reset_centre)
qed

theorem scoring_at_edges_witness:
  "rect_w (ball_rect (game_ball ((game_init (0, 1))\<lparr>game_ball := \<lparr>ball_rect = Rect 790 293 15 15, vx = 7, vy = 0\<rparr>\<rparr>))) = BALL_SIZE
   \<and> left_score (fst (scoring ((game_init (0, 1))\<lparr>game_ball := \<lparr>ball_rect = Rect 790 293 15 15, vx = 7, vy = 0\<rparr>\<rparr>) (0, 1) (0, - 1))) = 1
   \<and> right_score (fst (scoring ((game_init (0, 1))\<lparr>game_ball := \<lparr>ball_rect = Rect 790 293 15 15, vx = 7, vy = 0\<rparr>\<rparr>) (0, 1) (0, - 1))) = 0
   \<and> snd (scoring ((game_init (0, 1))\<lparr>game_ball := \<lparr>ball_rect = Rect 790 293 15 15, vx = 7, vy = 0\<rparr>\<rparr>) (0, 1) (0, - 1)) = [Score]
   \<and> game_ball (fst (scoring ((game_init (0, 1))\<lparr>game_ball := \<lparr>ball_rect = Rect 790 293 15 15, vx = 7, vy = 0\<rparr>\<rparr>) (0, 1) (0, - 1)))
       = \<lparr>ball_rect = Rect 393 293 15 15, vx = - 7, vy = 0\<rparr>"
proof -
  let ?g = "(game_init (0, 1))\<lparr>game_ball := \<lparr>ball_rect = Rect 790 293 15 15, vx = 7, vy = 0\<rparr>\<rparr>"
  have h: "rect_w (ball_rect (game_ball ?g)) = BALL_SIZE"
    by (simp add: Rect_def consts_defs)
  have e: "\<not> rect_left (ball_rect (game_ball ?g)) \<le> 0" "rect_right (ball_rect (game_ball ?g)) \<ge> WIDTH"
    by (simp_all add: Rect_def rect_left_def rect_right_def consts_defs)
  have l0: "left_score ?g = 0" "right_score ?g = 0" by (simp_all add: game_init_def)
  have r: "reset \<lparr>ball_rect = Rect 790 293 15 15, vx = 7, vy = 0\<rparr> (0, - 1)
       = \<lparr>ball_rect = Rect 393 293 15 15, vx = - 7, vy = 0\<rparr>"
    by (simp add: reset_def set_center_def Rect_def consts_defs)
  show ?thesis
    using h e l0 r scoring_at_edges [OF h, of "(0, 1)" "(0, - 1)"] by simp
qed

text \<open>
  Claim C2 as stated ("exactly when the ball fully exits the edge") fails: a ball whose
  left edge is at \<open>x = 0\<close> lies entirely inside the playfield, has fully exited
  neither edge, and the right player scores.
\<close>

theorem scoring_before_exit_counterexample:
  "\<not> fully_exited_left (Rect 0 293 15 15) \<and> \<not> fully_exited_right (Rect 0 293 15 15)
   \<and> rect_left (Rect 0 293 15 15) = 0 \<and> rect_right (Rect 0 293 15 15) = 15
   \<and> right_score (game_init (0, 1)) = 0
   \<and> right_score (fst (scoring ((game_init (0, 1))\<lparr>game_ball := \<lparr>ball_rect = Rect 0 293 15 15, vx = - 7, vy = 0\<rparr>\<rparr>) (0, 1) (0, 1))) = 1
   \<and> snd (scoring ((game_init (0, 1))\<lparr>game_ball := \<lparr>ball_rect = Rect 0 293 15 15, vx = - 7, vy = 0\<rparr>\<rparr>) (0, 1) (0, 1)) = [Score]"
  by (simp add: fully_exited_left_def fully_exited_right_def scoring_def score_left_exit_def
      score_right_exit_def rect_left_def rect_right_def Rect_def game_init_def reset_def
      set_center_def consts_defs)

section \<open>Scores and the end of the match\<close>

lemma count_list_0: "x \<notin> set xs \<Longrightarrow> count_list xs x = 0"
  by (induction xs) auto

lemma collision_sounds:
  "Score \<notin> set (snd (left_paddle_collision b p))"
  "Score \<notin> set (snd (right_paddle_collision b p))"
  by (simp_all add: left_paddle_collision_def right_paddle_collision_def Let_def)

lemma ball_at_scoring_facts:
  "rect_w (ball_rect (fst (ball_at_scoring N b lp rp))) = rect_w (ball_rect b)"
  "Score \<notin> set (snd (ball_at_scoring N b lp rp))"
  by (simp_all add: ball_at_scoring_def Let_def case_prod_beta right_paddle_collision_size
      left_paddle_collision_size wall_collision_rect move_size collision_sounds)

lemma move_ai_inv:
  assumes "paddle_inv p"
  shows "\<exists>p'. move_ai p b = Inr p' \<and> paddle_inv p'"
proof -
  have h: "rect_h (paddle_rect p) = PADDLE_HEIGHT" using assms by (simp add: paddle_inv_def)
  have y: "- 1000000000 \<le> rect_y (paddle_rect p)" "rect_y (paddle_rect p) \<le> 1000000000"
    using assms by (simp_all add: paddle_inv_def consts_defs)
  have s: "- 1000000000 \<le> paddle_speed p" "paddle_speed p \<le> 1000000000"
    using assms by (simp_all add: paddle_inv_def)
  from move_ai_ok [OF h y s, of b] show ?thesis
    using assms by (auto simp: paddle_inv_def)
qed

lemma move_mouse_result:
  "move_mouse p m = (if fits_c_int (m - 50)
     then Inr (p\<lparr>paddle_rect := clamp_ip ((paddle_rect p)\<lparr>rect_y := m - 50\<rparr>) (Rect 0 0 WIDTH HEIGHT)\<rparr>)
     else Inl TypeError)"
  by (simp add: move_mouse_def set_y_def consts_defs)

lemma tick_closed: "fst (tick N f g) = WindowClosed \<longleftrightarrow> game_events (events f)"
  by (simp add: tick_def Let_def case_prod_beta split: sum.split)

lemma tick_running:
  assumes "\<not> game_events (events f)"
    and "move_mouse (right_paddle g) (snd (mouse_pos f)) = Inr rp"
    and "move_ai (left_paddle g) (rect_centery (ball_rect (game_ball g))) = Inr lp"
  shows "tick N f g =
    (let g1 = fst (scoring (g\<lparr>left_paddle := lp, right_paddle := rp,
                       game_ball := fst (ball_at_scoring N (game_ball g) lp rp)\<rparr>) (draw1 f) (draw2 f));
         snds = snd (ball_at_scoring N (game_ball g) lp rp)
              @ snd (scoring (g\<lparr>left_paddle := lp, right_paddle := rp,
                       game_ball := fst (ball_at_scoring N (game_ball g) lp rp)\<rparr>) (draw1 f) (draw2 f))
     in if left_score g1 \<ge> 5 \<or> right_score g1 \<ge> 5 then (MatchOver g1, snds) else (Running g1, snds))"
  using assms by (simp add: tick_def Let_def case_prod_beta)

lemma tick_raised:
  assumes "paddle_inv (left_paddle g)"
  shows "(\<exists>e. fst (tick N f g) = Raised e)
     \<longleftrightarrow> \<not> game_events (events f) \<and> \<not> fits_c_int (snd (mouse_pos f) - 50)"
proof -
  obtain lp where lp: "move_ai (left_paddle g) (rect_centery (ball_rect (game_ball g))) = Inr lp"
    using move_ai_inv [OF assms] by blast
  show ?thesis
    by (simp add: tick_def lp move_mouse_result Let_def case_prod_beta)
qed

lemma tick_scores:
  assumes inv: "match_inv g" and t: "tick N f g = (res, snds)"
    and nq: "\<not> game_events (events f)" and fit: "fits_c_int (snd (mouse_pos f) - 50)"
  shows "\<exists>g' lp rp b. (res = Running g' \<or> res = MatchOver g')
          \<and> move_mouse (right_paddle g) (snd (mouse_pos f)) = Inr rp
          \<and> move_ai (left_paddle g) (rect_centery (ball_rect (game_ball g))) = Inr lp
          \<and> b = fst (ball_at_scoring N (game_ball g) lp rp)
          \<and> match_inv (g'\<lparr>left_score := 0, right_score := 0\<rparr>)
          \<and> right_score g' = right_score g + (if rect_left (ball_rect b) \<le> 0 then 1 else 0)
          \<and> left_score g' = left_score g + (if rect_right (ball_rect b) \<ge> WIDTH then 1 else 0)
          \<and> \<not> (rect_left (ball_rect b) \<le> 0 \<and> rect_right (ball_rect b) \<ge> WIDTH)
          \<and> int (count_list snds Score)
              = (if rect_left (ball_rect b) \<le> 0 \<or> rect_right (ball_rect b) \<ge> WIDTH then 1 else 0)
          \<and> (res = MatchOver g' \<longleftrightarrow> left_score g' = 5 \<or> right_score g' = 5)
          \<and> (res = Running g' \<longleftrightarrow> left_score g' < 5 \<and> right_score g' < 5)"
proof -
  obtain lp where lp: "move_ai (left_paddle g) (rect_centery (ball_rect (game_ball g))) = Inr lp"
    and lpi: "paddle_inv lp"
    using move_ai_inv [of "left_paddle g"] inv by (auto simp: match_inv_def)
  obtain rp where rp: "move_mouse (right_paddle g) (snd (mouse_pos f)) = Inr rp"
    using fit by (simp add: move_mouse_result)
  define b where "b = fst (ball_at_scoring N (game_ball g) lp rp)"
  define g0 where "g0 = g\<lparr>left_paddle := lp, right_paddle := rp, game_ball := b\<rparr>"
  define g1 where "g1 = fst (scoring g0 (draw1 f) (draw2 f))"
  define s3 where "s3 = snd (ball_at_scoring N (game_ball g) lp rp)"
  define s4 where "s4 = snd (scoring g0 (draw1 f) (draw2 f))"
  have tk: "tick N f g = (if left_score g1 \<ge> 5 \<or> right_score g1 \<ge> 5
                        then (MatchOver g1, s3 @ s4) else (Running g1, s3 @ s4))"
    unfolding tick_running [OF nq rp lp] b_def g0_def g1_def s3_def s4_def
    by (simp add: Let_def)
  have w: "rect_w (ball_rect (game_ball g0)) = BALL_SIZE"
    using inv by (simp add: g0_def b_def ball_at_scoring_facts match_inv_def)
  have x: "\<not> (rect_left (ball_rect b) \<le> 0 \<and> rect_right (ball_rect b) \<ge> WIDTH)"
    using w by (simp add: g0_def rect_left_def rect_right_def consts_defs)
  have c3: "count_list s3 Score = 0"
    by (simp add: s3_def count_list_0 ball_at_scoring_facts)
  have sc: "(g1, s4) = scoring g0 (draw1 f) (draw2 f)"
    by (simp add: g1_def s4_def)
  have g0s: "left_score g0 = left_score g" "right_score g0 = right_score g"
    "game_ball g0 = b" "left_paddle g0 = lp"
    by (simp_all add: g0_def)
  have facts: "right_score g1 = right_score g + (if rect_left (ball_rect b) \<le> 0 then 1 else 0)
      \<and> left_score g1 = left_score g + (if rect_right (ball_rect b) \<ge> WIDTH then 1 else 0)
      \<and> int (count_list s4 Score)
          = (if rect_left (ball_rect b) \<le> 0 \<or> rect_right (ball_rect b) \<ge> WIDTH then 1 else 0)
      \<and> rect_w (ball_rect (game_ball g1)) = BALL_SIZE \<and> left_paddle g1 = lp"
    using sc g0s x w unfolding scoring_cases [OF w]
    by (auto split: if_splits simp: reset_rect)
  have bound: "left_score g1 \<le> 5 \<and> right_score g1 \<le> 5"
    using facts inv by (auto simp: match_inv_def split: if_splits)
  have res: "res = (if left_score g1 \<ge> 5 \<or> right_score g1 \<ge> 5 then MatchOver g1 else Running g1)"
    and sn: "snds = s3 @ s4"
    using t tk by (auto split: if_splits)
  have cnt: "count_list snds Score = count_list s4 Score"
    using c3 by (simp add: sn)
  have i1: "match_inv (g1\<lparr>left_score := 0, right_score := 0\<rparr>)"
    using facts lpi by (simp add: match_inv_def)
  show ?thesis
  proof (rule exI [of _ g1], rule exI [of _ lp], rule exI [of _ rp], rule exI [of _ b],
      intro conjI)
    show "res = Running g1 \<or> res = MatchOver g1" using res by simp
    show "move_mouse (right_paddle g) (snd (mouse_pos f)) = Inr rp" by (rule rp)
    show "move_ai (left_paddle g) (rect_centery (ball_rect (game_ball g))) = Inr lp" by (rule lp)
    show "b = fst (ball_at_scoring N (game_ball g) lp rp)" by (rule b_def)
    show "match_inv (g1\<lparr>left_score := 0, right_score := 0\<rparr>)" by (rule i1)
    show "right_score g1 = right_score g + (if rect_left (ball_rect b) \<le> 0 then 1 else 0)"
      using facts by simp
    show "left_score g1 = left_score g + (if rect_right (ball_rect b) \<ge> WIDTH then 1 else 0)"
      using facts by simp
    show "\<not> (rect_left (ball_rect b) \<le> 0 \<and> rect_right (ball_rect b) \<ge> WIDTH)" by (rule x)
    show "int (count_list snds Score)
        = (if rect_left (ball_rect b) \<le> 0 \<or> rect_right (ball_rect b) \<ge> WIDTH then 1 else 0)"
      using facts by (simp only: cnt)
    show "res = MatchOver g1 \<longleftrightarrow> left_score g1 = 5 \<or> right_score g1 = 5"
      using res bound by auto
    show "res = Running g1 \<longleftrightarrow> left_score g1 < 5 \<and> right_score g1 < 5"
      using res bound by auto
  qed
qed

lemma game_init_inv: "match_inv (game_init d)"
  by (simp add: match_inv_def paddle_inv_def game_init_def Ball_init_def Paddle_init_def
      reset_rect Rect_def consts_defs)

lemma tick_inv:
  assumes "match_inv g" and "tick N f g = (Running g', s)"
  shows "match_inv g'"
proof -
  have nq: "\<not> game_events (events f)"
    using assms(2) tick_closed [of N f g] by auto
  have "\<not> (\<exists>e. fst (tick N f g) = Raised e)" using assms(2) by simp
  then have fit: "fits_c_int (snd (mouse_pos f) - 50)"
    using tick_raised [of g N f] assms(1) nq by (auto simp: match_inv_def)
  from tick_scores [OF assms(1) assms(2) nq fit]
  show ?thesis using assms(1) by (auto simp: match_inv_def split: if_splits)
qed

lemma reachable_inv: "reachable N g \<Longrightarrow> match_inv g"
  by (induction rule: reachable.induct) (auto intro: game_init_inv tick_inv)


text \<open>
  Claim C6. Every reachable state of the match loop satisfies \<open>match_inv\<close>: both scores
  are below 5 while the loop runs. From any such state, a pass ends by window-close
  exactly when the queue holds \<open>QUIT\<close>, and otherwise by \<open>TypeError\<close> exactly when the
  pointer position does not fit the rectangle. In every other pass, with \<open>b\<close> the ball
  as the scoring code finds it: the right score grows by exactly 1 if the left edge of
  \<open>b\<close> is at or beyond the left wall and stays otherwise; the left score grows by
  exactly 1 if the right edge of \<open>b\<close> is at or beyond the right wall and stays
  otherwise; the two never happen in the same pass; the pass emits one score sound per
  point; it hands over to the game-over prompt exactly when a score is 5 after it, and
  the loop goes on exactly when both are still below 5.
\<close>

theorem score_steps_and_match_end:
  "(reachable N g \<longrightarrow> match_inv g)
   \<and> (match_inv g \<and> tick N f g = (res, snds) \<longrightarrow>
        (res = WindowClosed \<longleftrightarrow> game_events (events f))
      \<and> ((\<exists>e. res = Raised e)
            \<longleftrightarrow> \<not> game_events (events f) \<and> \<not> fits_c_int (snd (mouse_pos f) - 50))
      \<and> (res \<noteq> WindowClosed \<and> (\<forall>e. res \<noteq> Raised e) \<longrightarrow>
           (\<exists>g' lp rp b. (res = Running g' \<or> res = MatchOver g')
              \<and> move_mouse (right_paddle g) (snd (mouse_pos f)) = Inr rp
              \<and> move_ai (left_paddle g) (rect_centery (ball_rect (game_ball g))) = Inr lp
              \<and> b = fst (ball_at_scoring N (game_ball g) lp rp)
              \<and> right_score g' = right_score g + (if rect_left (ball_rect b) \<le> 0 then 1 else 0)
              \<and> left_score g' = left_score g + (if rect_right (ball_rect b) \<ge> WIDTH then 1 else 0)
              \<and> \<not> (rect_left (ball_rect b) \<le> 0 \<and> rect_right (ball_rect b) \<ge> WIDTH)
              \<and> int (count_list snds Score)
                  = (if rect_left (ball_rect b) \<le> 0 \<or> rect_right (ball_rect b) \<ge> WIDTH
                     then 1 else 0)
              \<and> (res = MatchOver g' \<longleftrightarrow> left_score g' = 5 \<or> right_score g' = 5)
              \<and> (res = Running g' \<longleftrightarrow> left_score g' < 5 \<and> right_score g' < 5)))
      \<and> (main_step N start_rect quit_rect (Match g) f = GameOverPrompt
            \<longleftrightarrow> (\<exists>g'. res = MatchOver g'))
      \<and> (\<forall>g'. main_step N start_rect quit_rect (Match g) f = Match g' \<longleftrightarrow> res = Running g'))"
proof (intro conjI impI)
  assume "reachable N g" then show "match_inv g" by (rule reachable_inv)
next
  assume a: "match_inv g \<and> tick N f g = (res, snds)"
  then have r: "fst (tick N f g) = res" by simp
  show "res = WindowClosed \<longleftrightarrow> game_events (events f)"
    using tick_closed [of N f g] r by simp
next
  assume a: "match_inv g \<and> tick N f g = (res, snds)"
  then have r: "fst (tick N f g) = res" and p: "paddle_inv (left_paddle g)"
    by (simp_all add: match_inv_def)
  show "(\<exists>e. res = Raised e)
      \<longleftrightarrow> \<not> game_events (events f) \<and> \<not> fits_c_int (snd (mouse_pos f) - 50)"
    using tick_raised [OF p, of N f] r by simp
next
  assume a: "match_inv g \<and> tick N f g = (res, snds)"
    and n: "res \<noteq> WindowClosed \<and> (\<forall>e. res \<noteq> Raised e)"
  from a have r: "fst (tick N f g) = res" and p: "paddle_inv (left_paddle g)"
    by (simp_all add: match_inv_def)
  have nq: "\<not> game_events (events f)"
    using n tick_closed [of N f g] r by auto
  have fit: "fits_c_int (snd (mouse_pos f) - 50)"
    using n tick_raised [OF p, of N f] r nq by auto
  from tick_scores [OF _ _ nq fit, of g N res snds] a
  show "\<exists>g' lp rp b. (res = Running g' \<or> res = MatchOver g')
              \<and> move_mouse (right_paddle g) (snd (mouse_pos f)) = Inr rp
              \<and> move_ai (left_paddle g) (rect_centery (ball_rect (game_ball g))) = Inr lp
              \<and> b = fst (ball_at_scoring N (game_ball g) lp rp)
              \<and> right_score g' = right_score g + (if rect_left (ball_rect b) \<le> 0 then 1 else 0)
              \<and> left_score g' = left_score g + (if rect_right (ball_rect b) \<ge> WIDTH then 1 else 0)
              \<and> \<not> (rect_left (ball_rect b) \<le> 0 \<and> rect_right (ball_rect b) \<ge> WIDTH)
              \<and> int (count_list snds Score)
                  = (if rect_left (ball_rect b) \<le> 0 \<or> rect_right (ball_rect b) \<ge> WIDTH
                     then 1 else 0)
              \<and> (res = MatchOver g' \<longleftrightarrow> left_score g' = 5 \<or> right_score g' = 5)
              \<and> (res = Running g' \<longleftrightarrow> left_score g' < 5 \<and> right_score g' < 5)"
    by blast
next
  assume a: "match_inv g \<and> tick N f g = (res, snds)"
  then have r: "fst (tick N f g) = res" by simp
  show "main_step N start_rect quit_rect (Match g) f = GameOverPrompt \<longleftrightarrow> (\<exists>g'. res = MatchOver g')"
    by (cases res) (simp_all add: r)
next
  assume a: "match_inv g \<and> tick N f g = (res, snds)"
  then have r: "fst (tick N f g) = res" by simp
  show "\<forall>g'. main_step N start_rect quit_rect (Match g) f = Match g' \<longleftrightarrow> res = Running g'"
    by (cases res) (simp_all add: r)
qed


text \<open>Two passes evaluated stage by stage, with exact sums and truncation: at match
  point (left 4, right 3) the ball crosses the right wall; at 1 to 2 it crosses the
  left wall.\<close>

lemma pass_move_mouse: "move_mouse (Paddle_init 755 250) 300 = Inr (Paddle_init 755 250)"
  by (simp add: move_mouse_def set_y_def clamp_ip_def clamp_axis_def Paddle_init_def
      Rect_def consts_defs c_int_id fits_c_int_def)

lemma pass_move_ai: "move_ai (Paddle_init 30 250) 107 = Inr (Paddle_init 30 243)"
  by (simp add: move_ai_def set_y_def clamp_ip_def clamp_axis_def rect_centery_def
      Paddle_init_def Rect_def consts_defs Let_def c_int_id fits_c_int_def)

lemma pass_centery: "rect_centery (Rect 780 100 15 15) = 107" "rect_centery (Rect 5 100 15 15) = 107"
  by (simp_all add: rect_centery_def Rect_def)

lemma py_int_of_int: "py_int (real_of_int k) = k"
  by (simp add: py_int_def)

lemma pass_move_right: "move truncating \<lparr>ball_rect = Rect 780 100 15 15, vx = 7, vy = 0\<rparr>
            = \<lparr>ball_rect = Rect 787 100 15 15, vx = 7, vy = 0\<rparr>"
  using py_int_of_int [of 787] py_int_of_int [of 100]
  by (simp add: move_def truncating_def Rect_def Let_def)

lemma pass_move_left: "move truncating \<lparr>ball_rect = Rect 5 100 15 15, vx = - 7, vy = 0\<rparr>
            = \<lparr>ball_rect = Rect (- 2) 100 15 15, vx = - 7, vy = 0\<rparr>"
  using py_int_of_int [of "- 2"] py_int_of_int [of 100]
  by (simp add: move_def truncating_def Rect_def Let_def)

lemma pass_ball_right:
  "ball_at_scoring truncating \<lparr>ball_rect = Rect 780 100 15 15, vx = 7, vy = 0\<rparr>
      (Paddle_init 30 243) (Paddle_init 755 250)
   = (\<lparr>ball_rect = Rect 787 100 15 15, vx = 7, vy = 0\<rparr>, [])"
  unfolding ball_at_scoring_def pass_move_right
  by (simp add: wall_collision_def left_paddle_collision_def
      right_paddle_collision_def colliderect_def rect_top_def rect_bottom_def Paddle_init_def
      Rect_def consts_defs)

lemma pass_ball_left:
  "ball_at_scoring truncating \<lparr>ball_rect = Rect 5 100 15 15, vx = - 7, vy = 0\<rparr>
      (Paddle_init 30 243) (Paddle_init 755 250)
   = (\<lparr>ball_rect = Rect (- 2) 100 15 15, vx = - 7, vy = 0\<rparr>, [])"
  unfolding ball_at_scoring_def pass_move_left
  by (simp add: wall_collision_def left_paddle_collision_def
      right_paddle_collision_def colliderect_def rect_top_def rect_bottom_def Paddle_init_def
      Rect_def consts_defs)

lemma pass_scoring_right: "scoring \<lparr>left_paddle = Paddle_init 30 243, right_paddle = Paddle_init 755 250,
         game_ball = \<lparr>ball_rect = Rect 787 100 15 15, vx = 7, vy = 0\<rparr>,
         left_score = 4, right_score = 3\<rparr> (0, 1) (0, - 1)
     = (\<lparr>left_paddle = Paddle_init 30 243, right_paddle = Paddle_init 755 250,
           game_ball = \<lparr>ball_rect = Rect 393 293 15 15, vx = - 7, vy = 0\<rparr>,
           left_score = 5, right_score = 3\<rparr>, [Score])"
  by (simp add: scoring_def score_left_exit_def score_right_exit_def reset_def set_center_def
      rect_left_def rect_right_def Rect_def consts_defs)

lemma pass_scoring_left: "scoring \<lparr>left_paddle = Paddle_init 30 243, right_paddle = Paddle_init 755 250,
         game_ball = \<lparr>ball_rect = Rect (- 2) 100 15 15, vx = - 7, vy = 0\<rparr>,
         left_score = 1, right_score = 2\<rparr> (0, 1) (0, - 1)
     = (\<lparr>left_paddle = Paddle_init 30 243, right_paddle = Paddle_init 755 250,
           game_ball = \<lparr>ball_rect = Rect 393 293 15 15, vx = 7, vy = 0\<rparr>,
           left_score = 1, right_score = 3\<rparr>, [Score])"
  by (simp add: scoring_def score_left_exit_def score_right_exit_def reset_def set_center_def
      rect_left_def rect_right_def Rect_def consts_defs)

lemma pass_tick_right:
  "tick truncating \<lparr>events = [OTHER], mouse_pos = (0, 300), draw1 = (0, 1), draw2 = (0, - 1)\<rparr>
        \<lparr>left_paddle = Paddle_init 30 250, right_paddle = Paddle_init 755 250,
         game_ball = \<lparr>ball_rect = Rect 780 100 15 15, vx = 7, vy = 0\<rparr>,
         left_score = 4, right_score = 3\<rparr>
      = (MatchOver \<lparr>left_paddle = Paddle_init 30 243, right_paddle = Paddle_init 755 250,
           game_ball = \<lparr>ball_rect = Rect 393 293 15 15, vx = - 7, vy = 0\<rparr>,
           left_score = 5, right_score = 3\<rparr>, [Score])"
  by (simp add: tick_def Let_def pass_move_mouse pass_move_ai pass_centery pass_ball_right
      pass_scoring_right)

lemma pass_tick_left:
  "tick truncating \<lparr>events = [OTHER], mouse_pos = (0, 300), draw1 = (0, 1), draw2 = (0, - 1)\<rparr>
        \<lparr>left_paddle = Paddle_init 30 250, right_paddle = Paddle_init 755 250,
         game_ball = \<lparr>ball_rect = Rect 5 100 15 15, vx = - 7, vy = 0\<rparr>,
         left_score = 1, right_score = 2\<rparr>
      = (Running \<lparr>left_paddle = Paddle_init 30 243, right_paddle = Paddle_init 755 250,
           game_ball = \<lparr>ball_rect = Rect 393 293 15 15, vx = 7, vy = 0\<rparr>,
           left_score = 1, right_score = 3\<rparr>, [Score])"
  by (simp add: tick_def Let_def pass_move_mouse pass_move_ai pass_centery pass_ball_left
      pass_scoring_left)

theorem score_steps_and_match_end_witness:
  "reachable truncating (game_init (0, 1)) \<and> match_inv (game_init (0, 1))
   \<and> match_inv \<lparr>left_paddle = Paddle_init 30 250, right_paddle = Paddle_init 755 250,
        game_ball = \<lparr>ball_rect = Rect 780 100 15 15, vx = 7, vy = 0\<rparr>,
        left_score = 4, right_score = 3\<rparr>
   \<and> tick truncating \<lparr>events = [OTHER], mouse_pos = (0, 300), draw1 = (0, 1), draw2 = (0, - 1)\<rparr>
        \<lparr>left_paddle = Paddle_init 30 250, right_paddle = Paddle_init 755 250,
         game_ball = \<lparr>ball_rect = Rect 780 100 15 15, vx = 7, vy = 0\<rparr>,
         left_score = 4, right_score = 3\<rparr>
      = (MatchOver \<lparr>left_paddle = Paddle_init 30 243, right_paddle = Paddle_init 755 250,
           game_ball = \<lparr>ball_rect = Rect 393 293 15 15, vx = - 7, vy = 0\<rparr>,
           left_score = 5, right_score = 3\<rparr>, [Score])
   \<and> main_step truncating (Rect 360 257 80 26) (Rect 370 317 60 26)
        (Match \<lparr>left_paddle = Paddle_init 30 250, right_paddle = Paddle_init 755 250,
         game_ball = \<lparr>ball_rect = Rect 780 100 15 15, vx = 7, vy = 0\<rparr>,
         left_score = 4, right_score = 3\<rparr>)
        \<lparr>events = [OTHER], mouse_pos = (0, 300), draw1 = (0, 1), draw2 = (0, - 1)\<rparr>
      = GameOverPrompt
   \<and> match_inv \<lparr>left_paddle = Paddle_init 30 250, right_paddle = Paddle_init 755 250,
        game_ball = \<lparr>ball_rect = Rect 5 100 15 15, vx = - 7, vy = 0\<rparr>,
        left_score = 1, right_score = 2\<rparr>
   \<and> tick truncating \<lparr>events = [OTHER], mouse_pos = (0, 300), draw1 = (0, 1), draw2 = (0, - 1)\<rparr>
        \<lparr>left_paddle = Paddle_init 30 250, right_paddle = Paddle_init 755 250,
         game_ball = \<lparr>ball_rect = Rect 5 100 15 15, vx = - 7, vy = 0\<rparr>,
         left_score = 1, right_score = 2\<rparr>
      = (Running \<lparr>left_paddle = Paddle_init 30 243, right_paddle = Paddle_init 755 250,
           game_ball = \<lparr>ball_rect = Rect 393 293 15 15, vx = 7, vy = 0\<rparr>,
           left_score = 1, right_score = 3\<rparr>, [Score])
   \<and> main_step truncating (Rect 360 257 80 26) (Rect 370 317 60 26)
        (Match \<lparr>left_paddle = Paddle_init 30 250, right_paddle = Paddle_init 755 250,
         game_ball = \<lparr>ball_rect = Rect 5 100 15 15, vx = - 7, vy = 0\<rparr>,
         left_score = 1, right_score = 2\<rparr>)
        \<lparr>events = [OTHER], mouse_pos = (0, 300), draw1 = (0, 1), draw2 = (0, - 1)\<rparr>
      = Match \<lparr>left_paddle = Paddle_init 30 243, right_paddle = Paddle_init 755 250,
           game_ball = \<lparr>ball_rect = Rect 393 293 15 15, vx = 7, vy = 0\<rparr>,
           left_score = 1, right_score = 3\<rparr>"
proof -
  let ?g = "\<lparr>left_paddle = Paddle_init 30 250, right_paddle = Paddle_init 755 250,
         game_ball = \<lparr>ball_rect = Rect 780 100 15 15, vx = 7, vy = 0\<rparr>,
         left_score = 4, right_score = 3\<rparr>"
  let ?h = "\<lparr>left_paddle = Paddle_init 30 250, right_paddle = Paddle_init 755 250,
         game_ball = \<lparr>ball_rect = Rect 5 100 15 15, vx = - 7, vy = 0\<rparr>,
         left_score = 1, right_score = 2\<rparr>"
  let ?f = "\<lparr>events = [OTHER], mouse_pos = (0, 300), draw1 = (0, 1), draw2 = (0, - 1)\<rparr>"
  let ?g' = "\<lparr>left_paddle = Paddle_init 30 243, right_paddle = Paddle_init 755 250,
           game_ball = \<lparr>ball_rect = Rect 393 293 15 15, vx = - 7, vy = 0\<rparr>,
           left_score = 5, right_score = 3\<rparr>"
  let ?h' = "\<lparr>left_paddle = Paddle_init 30 243, right_paddle = Paddle_init 755 250,
           game_ball = \<lparr>ball_rect = Rect 393 293 15 15, vx = 7, vy = 0\<rparr>,
           left_score = 1, right_score = 3\<rparr>"
  have r: "reachable truncating (game_init (0, 1))" by (rule reach_init)
  have i: "match_inv ?g" "match_inv ?h"
    by (simp_all add: match_inv_def paddle_inv_def Paddle_init_def Rect_def consts_defs)
  have t: "tick truncating ?f ?g = (MatchOver ?g', [Score])" by (rule pass_tick_right)
  have u: "tick truncating ?f ?h = (Running ?h', [Score])" by (rule pass_tick_left)
  have a: "match_inv (game_init (0, 1))"
    using r score_steps_and_match_end [of truncating "game_init (0, 1)"] by blast
  have b: "main_step truncating (Rect 360 257 80 26) (Rect 370 317 60 26) (Match ?g) ?f = GameOverPrompt"
    using i(1) t score_steps_and_match_end [of truncating ?g ?f "MatchOver ?g'" "[Score]"
        "Rect 360 257 80 26" "Rect 370 317 60 26"]
    by blast
  have c: "main_step truncating (Rect 360 257 80 26) (Rect 370 317 60 26) (Match ?h) ?f = Match ?h'"
    using i(2) u score_steps_and_match_end [of truncating ?h ?f "Running ?h'" "[Score]"
        "Rect 360 257 80 26" "Rect 370 317 60 26"]
    by blast
  show ?thesis
    using r i t u a b c by (intro conjI)
qed

section \<open>Screen flow\<close>

lemma main_menu_events_first:
  "main_menu_events sr qr es =
     (case find (menu_input sr qr) es of
        None \<Rightarrow> None
      | Some e \<Rightarrow> if start_click sr e then Some (Return ''game'') else Some SysExit)"
proof (induction es)
  case Nil
  show ?case by simp
next
  case (Cons e es)
  show ?case
    by (cases e) (simp_all add: Cons.IH menu_input_def start_click_def quit_click_def)
qed

lemma game_over_prompt_events_first:
  "game_over_prompt_events es =
     (case find prompt_input es of None \<Rightarrow> None | Some e \<Rightarrow> Some (e = KEYDOWN K_y))"
proof (induction es)
  case Nil
  show ?case by simp
next
  case (Cons e es)
  show ?case
  proof (cases e)
    case (KEYDOWN k)
    then show ?thesis by (cases k) (simp_all add: Cons.IH prompt_input_def)
  qed (simp_all add: Cons.IH prompt_input_def)
qed

lemma game_events_iff: "game_events es \<longleftrightarrow> QUIT \<in> set es"
  by (induction es) auto

text \<open>
  Claim C9. One pass of the running loop moves between the screens as follows, and in no
  other way. In the menu the first event that is window-close, a click on the start
  label or a click on the quit label decides: a start click enters the match, the other
  two terminate; without such an event the menu stays. In the game-over prompt the first
  event that is window-close, the key \<open>y\<close> or the key \<open>n\<close> decides: \<open>y\<close> returns to the
  menu, the other two terminate; without such an event the prompt stays. A match pass
  never leads to the menu: it terminates exactly on window-close, enters the prompt
  exactly when the pass reports match-over, and otherwise stays in the match.
  \<open>Terminated\<close> is final. (An exception that leaves the match loop, which only a
  pointer position outside the 32-bit range causes, ends the program as \<open>Crashed\<close>.)
\<close>

theorem screen_flow:
  "main_step N sr qr Menu f =
     (case find (menu_input sr qr) (events f) of
        None \<Rightarrow> Menu
      | Some e \<Rightarrow> if start_click sr e then Match (game_init (draw1 f)) else Terminated)
   \<and> main_step N sr qr GameOverPrompt f =
     (case find prompt_input (events f) of
        None \<Rightarrow> GameOverPrompt
      | Some e \<Rightarrow> if e = KEYDOWN K_y then Menu else Terminated)
   \<and> main_step N sr qr Terminated f = Terminated
   \<and> main_step N sr qr (Match g) f \<noteq> Menu
   \<and> (main_step N sr qr (Match g) f = Terminated \<longleftrightarrow> QUIT \<in> set (events f))
   \<and> (main_step N sr qr (Match g) f = GameOverPrompt \<longleftrightarrow> (\<exists>g'. fst (tick N f g) = MatchOver g'))
   \<and> (menu_input sr qr e \<longleftrightarrow> e = QUIT \<or> start_click sr e \<or> quit_click sr qr e)
   \<and> (prompt_input e \<longleftrightarrow> e = QUIT \<or> e = KEYDOWN K_y \<or> e = KEYDOWN K_n)
   \<and> (main_step N sr qr (Match g) f = Crashed x \<longleftrightarrow> fst (tick N f g) = Raised x)
   \<and> main_step N sr qr (Crashed x) f = Crashed x"
proof -
  have m: "main_step N sr qr Menu f =
     (case find (menu_input sr qr) (events f) of
        None \<Rightarrow> Menu
      | Some e \<Rightarrow> if start_click sr e then Match (game_init (draw1 f)) else Terminated)"
    by (simp add: main_menu_events_first split: option.split)
  have p: "main_step N sr qr GameOverPrompt f =
     (case find prompt_input (events f) of
        None \<Rightarrow> GameOverPrompt
      | Some e \<Rightarrow> if e = KEYDOWN K_y then Menu else Terminated)"
    by (simp add: game_over_prompt_events_first split: option.split)
  have t: "main_step N sr qr Terminated f = Terminated" by simp
  have g1: "main_step N sr qr (Match g) f \<noteq> Menu"
    by (cases "fst (tick N f g)") simp_all
  have g2: "main_step N sr qr (Match g) f = Terminated \<longleftrightarrow> QUIT \<in> set (events f)"
    using tick_closed [of N f g] game_events_iff [of "events f"]
    by (cases "fst (tick N f g)") simp_all
  have g3: "main_step N sr qr (Match g) f = GameOverPrompt \<longleftrightarrow> (\<exists>g'. fst (tick N f g) = MatchOver g')"
    by (cases "fst (tick N f g)") simp_all
  have d1: "menu_input sr qr e \<longleftrightarrow> e = QUIT \<or> start_click sr e \<or> quit_click sr qr e"
    by (simp add: menu_input_def)
  have d2: "prompt_input e \<longleftrightarrow> e = QUIT \<or> e = KEYDOWN K_y \<or> e = KEYDOWN K_n"
    by (simp add: prompt_input_def)
  have g4: "main_step N sr qr (Match g) f = Crashed x \<longleftrightarrow> fst (tick N f g) = Raised x"
    by (cases "fst (tick N f g)") simp_all
  have c: "main_step N sr qr (Crashed x) f = Crashed x" by simp
  from m p t g1 g2 g3 d1 d2 g4 c show ?thesis by (intro conjI)
qed

theorem screen_flow_witness:
  "main_step truncating (Rect 360 257 80 26) (Rect 370 317 60 26) Menu
      \<lparr>events = [OTHER, MOUSEBUTTONDOWN (400, 270)], mouse_pos = (400, 270), draw1 = (0, 1), draw2 = (0, 1)\<rparr>
     = Match (game_init (0, 1))
   \<and> main_step truncating (Rect 360 257 80 26) (Rect 370 317 60 26) Menu
      \<lparr>events = [MOUSEBUTTONDOWN (10, 10), MOUSEBUTTONDOWN (400, 330)], mouse_pos = (400, 330), draw1 = (0, 1), draw2 = (0, 1)\<rparr>
     = Terminated
   \<and> main_step truncating (Rect 360 257 80 26) (Rect 370 317 60 26) Menu
      \<lparr>events = [KEYDOWN K_y, QUIT], mouse_pos = (0, 0), draw1 = (0, 1), draw2 = (0, 1)\<rparr>
     = Terminated
   \<and> main_step truncating (Rect 360 257 80 26) (Rect 370 317 60 26) Menu
      \<lparr>events = [KEYDOWN K_y, MOUSEBUTTONDOWN (10, 10)], mouse_pos = (0, 0), draw1 = (0, 1), draw2 = (0, 1)\<rparr>
     = Menu
   \<and> main_step truncating (Rect 360 257 80 26) (Rect 370 317 60 26) GameOverPrompt
      \<lparr>events = [KEYDOWN K_other, KEYDOWN K_y], mouse_pos = (0, 0), draw1 = (0, 1), draw2 = (0, 1)\<rparr>
     = Menu
   \<and> main_step truncating (Rect 360 257 80 26) (Rect 370 317 60 26) GameOverPrompt
      \<lparr>events = [MOUSEBUTTONDOWN (400, 270), KEYDOWN K_n], mouse_pos = (0, 0), draw1 = (0, 1), draw2 = (0, 1)\<rparr>
     = Terminated
   \<and> main_step truncating (Rect 360 257 80 26) (Rect 370 317 60 26) GameOverPrompt
      \<lparr>events = [QUIT], mouse_pos = (0, 0), draw1 = (0, 1), draw2 = (0, 1)\<rparr>
     = Terminated
   \<and> main_step truncating (Rect 360 257 80 26) (Rect 370 317 60 26) GameOverPrompt
      \<lparr>events = [KEYDOWN K_other, OTHER], mouse_pos = (0, 0), draw1 = (0, 1), draw2 = (0, 1)\<rparr>
     = GameOverPrompt
   \<and> main_step truncating (Rect 360 257 80 26) (Rect 370 317 60 26) (Match (game_init (0, 1)))
      \<lparr>events = [KEYDOWN K_other, QUIT], mouse_pos = (0, 0), draw1 = (0, 1), draw2 = (0, 1)\<rparr>
     = Terminated"
proof -
  let ?sr = "Rect 360 257 80 26" and ?qr = "Rect 370 317 60 26"
  note d = menu_input_def start_click_def quit_click_def prompt_input_def collidepoint_def Rect_def
  have a: "main_step truncating ?sr ?qr Menu
      \<lparr>events = [OTHER, MOUSEBUTTONDOWN (400, 270)], mouse_pos = (400, 270), draw1 = (0, 1), draw2 = (0, 1)\<rparr>
     = Match (game_init (0, 1))"
    using screen_flow [of truncating ?sr ?qr "\<lparr>events = [OTHER, MOUSEBUTTONDOWN (400, 270)], mouse_pos = (400, 270), draw1 = (0, 1), draw2 = (0, 1)\<rparr>"]
    by (simp add: d)
  have b: "main_step truncating ?sr ?qr Menu
      \<lparr>events = [MOUSEBUTTONDOWN (10, 10), MOUSEBUTTONDOWN (400, 330)], mouse_pos = (400, 330), draw1 = (0, 1), draw2 = (0, 1)\<rparr>
     = Terminated"
    using screen_flow [of truncating ?sr ?qr "\<lparr>events = [MOUSEBUTTONDOWN (10, 10), MOUSEBUTTONDOWN (400, 330)], mouse_pos = (400, 330), draw1 = (0, 1), draw2 = (0, 1)\<rparr>"]
    by (simp add: d)
  have c: "main_step truncating ?sr ?qr Menu
      \<lparr>events = [KEYDOWN K_y, QUIT], mouse_pos = (0, 0), draw1 = (0, 1), draw2 = (0, 1)\<rparr>
     = Terminated"
    using screen_flow [of truncating ?sr ?qr "\<lparr>events = [KEYDOWN K_y, QUIT], mouse_pos = (0, 0), draw1 = (0, 1), draw2 = (0, 1)\<rparr>"]
    by (simp add: d)
  have c': "main_step truncating ?sr ?qr Menu
      \<lparr>events = [KEYDOWN K_y, MOUSEBUTTONDOWN (10, 10)], mouse_pos = (0, 0), draw1 = (0, 1), draw2 = (0, 1)\<rparr>
     = Menu"
    using screen_flow [of truncating ?sr ?qr "\<lparr>events = [KEYDOWN K_y, MOUSEBUTTONDOWN (10, 10)], mouse_pos = (0, 0), draw1 = (0, 1), draw2 = (0, 1)\<rparr>"]
    by (simp add: d)
  have e: "main_step truncating ?sr ?qr GameOverPrompt
      \<lparr>events = [KEYDOWN K_other, KEYDOWN K_y], mouse_pos = (0, 0), draw1 = (0, 1), draw2 = (0, 1)\<rparr>
     = Menu"
    using screen_flow [of truncating ?sr ?qr "\<lparr>events = [KEYDOWN K_other, KEYDOWN K_y], mouse_pos = (0, 0), draw1 = (0, 1), draw2 = (0, 1)\<rparr>"]
    by (simp add: d)
  have f: "main_step truncating ?sr ?qr GameOverPrompt
      \<lparr>events = [MOUSEBUTTONDOWN (400, 270), KEYDOWN K_n], mouse_pos = (0, 0), draw1 = (0, 1), draw2 = (0, 1)\<rparr>
     = Terminated"
    using screen_flow [of truncating ?sr ?qr "\<lparr>events = [MOUSEBUTTONDOWN (400, 270), KEYDOWN K_n], mouse_pos = (0, 0), draw1 = (0, 1), draw2 = (0, 1)\<rparr>"]
    by (simp add: d)
  have g: "main_step truncating ?sr ?qr GameOverPrompt
      \<lparr>events = [QUIT], mouse_pos = (0, 0), draw1 = (0, 1), draw2 = (0, 1)\<rparr>
     = Terminated"
    using screen_flow [of truncating ?sr ?qr "\<lparr>events = [QUIT], mouse_pos = (0, 0), draw1 = (0, 1), draw2 = (0, 1)\<rparr>"]
    by (simp add: d)
  have h: "main_step truncating ?sr ?qr GameOverPrompt
      \<lparr>events = [KEYDOWN K_other, OTHER], mouse_pos = (0, 0), draw1 = (0, 1), draw2 = (0, 1)\<rparr>
     = GameOverPrompt"
    using screen_flow [of truncating ?sr ?qr "\<lparr>events = [KEYDOWN K_other, OTHER], mouse_pos = (0, 0), draw1 = (0, 1), draw2 = (0, 1)\<rparr>"]
    by (simp add: d)
  have i: "main_step truncating ?sr ?qr (Match (game_init (0, 1)))
      \<lparr>events = [KEYDOWN K_other, QUIT], mouse_pos = (0, 0), draw1 = (0, 1), draw2 = (0, 1)\<rparr>
     = Terminated"
    using screen_flow [of truncating ?sr ?qr "\<lparr>events = [KEYDOWN K_other, QUIT], mouse_pos = (0, 0), draw1 = (0, 1), draw2 = (0, 1)\<rparr>" "game_init (0, 1)"]
    by (simp del: main_step.simps)
  from a b c c' e f g h i show ?thesis by (intro conjI)
qed

section \<open>Ball movement\<close>

lemma py_int_shift_nonneg:
  assumes "0 \<le> real_of_int k + v"
  shows "py_int (real_of_int k + v) = k + \<lfloor>v\<rfloor>"
  using assms by (simp add: py_int_def)

lemma py_int_shift_neg:
  assumes "real_of_int k + v < 0"
  shows "py_int (real_of_int k + v) = k + \<lceil>v\<rceil>"
proof -
  have "\<lceil>real_of_int k + v\<rceil> = k + \<lceil>v\<rceil>"
    using ceiling_add_of_int [of v k] by (simp add: add.commute)
  then show ?thesis using assms by (simp add: py_int_def)
qed

lemma move_coords:
  "rect_x (ball_rect (move N b)) = float_to_c_int N (int_plus_float N (rect_x (ball_rect b)) (vx b))"
  "rect_y (ball_rect (move N b)) = float_to_c_int N (int_plus_float N (rect_y (ball_rect b)) (vy b))"
  "rect_w (ball_rect (move N b)) = rect_w (ball_rect b)"
  "rect_h (ball_rect (move N b)) = rect_h (ball_rect b)"
  "vx (move N b) = vx b" "vy (move N b) = vy b"
  by (simp_all add: move_def Let_def)

text \<open>
  Claim C10, as the code has it. \<open>move\<close> adds the float velocity component to the
  integer coordinate and the rectangle converts the float sum back to an integer: the
  new coordinate is the conversion of the sum (so two balls with the same sum end at the
  same coordinate, wherever they started), and size and velocity are unchanged. Where
  the conversion truncates towards zero and the sum is exact, the displacement is
  \<open>floor(v)\<close> while the sum is not negative and \<open>ceiling(v)\<close> when it is negative.
\<close>

theorem move_converts_sum:
  "rect_x (ball_rect (move N b)) = float_to_c_int N (int_plus_float N (rect_x (ball_rect b)) (vx b))
   \<and> rect_y (ball_rect (move N b)) = float_to_c_int N (int_plus_float N (rect_y (ball_rect b)) (vy b))
   \<and> rect_w (ball_rect (move N b)) = rect_w (ball_rect b)
   \<and> rect_h (ball_rect (move N b)) = rect_h (ball_rect b)
   \<and> vx (move N b) = vx b \<and> vy (move N b) = vy b
   \<and> (int_plus_float N (rect_x (ball_rect b)) (vx b) = int_plus_float N (rect_x (ball_rect c)) (vx c)
        \<longrightarrow> rect_x (ball_rect (move N b)) = rect_x (ball_rect (move N c)))
   \<and> (int_plus_float N (rect_y (ball_rect b)) (vy b) = int_plus_float N (rect_y (ball_rect c)) (vy c)
        \<longrightarrow> rect_y (ball_rect (move N b)) = rect_y (ball_rect (move N c)))
   \<and> (float_to_c_int N = py_int
        \<and> int_plus_float N (rect_x (ball_rect b)) (vx b) = real_of_int (rect_x (ball_rect b)) + vx b
        \<longrightarrow> (0 \<le> real_of_int (rect_x (ball_rect b)) + vx b
               \<longrightarrow> rect_x (ball_rect (move N b)) = rect_x (ball_rect b) + \<lfloor>vx b\<rfloor>)
          \<and> (real_of_int (rect_x (ball_rect b)) + vx b < 0
               \<longrightarrow> rect_x (ball_rect (move N b)) = rect_x (ball_rect b) + \<lceil>vx b\<rceil>))
   \<and> (float_to_c_int N = py_int
        \<and> int_plus_float N (rect_y (ball_rect b)) (vy b) = real_of_int (rect_y (ball_rect b)) + vy b
        \<longrightarrow> (0 \<le> real_of_int (rect_y (ball_rect b)) + vy b
               \<longrightarrow> rect_y (ball_rect (move N b)) = rect_y (ball_rect b) + \<lfloor>vy b\<rfloor>)
          \<and> (real_of_int (rect_y (ball_rect b)) + vy b < 0
               \<longrightarrow> rect_y (ball_rect (move N b)) = rect_y (ball_rect b) + \<lceil>vy b\<rceil>))"
  unfolding move_coords
  using py_int_shift_nonneg py_int_shift_neg by auto

theorem move_converts_sum_witness:
  "float_to_c_int truncating = py_int
   \<and> int_plus_float truncating 393 (7 / 2) = 393 + 7 / 2
   \<and> int_plus_float truncating 293 (- 1 / 2) = 293 + - 1 / 2
   \<and> rect_x (ball_rect (move truncating \<lparr>ball_rect = Rect 393 293 15 15, vx = 7 / 2, vy = - 1 / 2\<rparr>)) = 396
   \<and> rect_y (ball_rect (move truncating \<lparr>ball_rect = Rect 393 293 15 15, vx = 7 / 2, vy = - 1 / 2\<rparr>)) = 292
   \<and> rect_x (ball_rect (move truncating \<lparr>ball_rect = Rect (- 5) 293 15 15, vx = - 7 / 2, vy = 1 / 2\<rparr>)) = - 8
   \<and> rect_y (ball_rect (move truncating \<lparr>ball_rect = Rect (- 5) 293 15 15, vx = - 7 / 2, vy = 1 / 2\<rparr>)) = 293"
proof -
  have f: "\<lfloor>7 / 2 :: real\<rfloor> = 3" "\<lfloor>- 1 / 2 :: real\<rfloor> = - 1" "\<lceil>- 7 / 2 :: real\<rceil> = - 3"
    "\<lfloor>1 / 2 :: real\<rfloor> = 0"
    by linarith+
  have t: "float_to_c_int truncating = py_int"
    "\<And>k v. int_plus_float truncating k v = real_of_int k + v"
    by (simp_all add: truncating_def)
  have xn: "rect_x (ball_rect (move truncating b)) = rect_x (ball_rect b) + \<lfloor>vx b\<rfloor>"
    if "0 \<le> real_of_int (rect_x (ball_rect b)) + vx b" for b
    using that move_converts_sum [of truncating b b] t by blast
  have yn: "rect_y (ball_rect (move truncating b)) = rect_y (ball_rect b) + \<lfloor>vy b\<rfloor>"
    if "0 \<le> real_of_int (rect_y (ball_rect b)) + vy b" for b
    using that move_converts_sum [of truncating b b] t by blast
  have xm: "rect_x (ball_rect (move truncating b)) = rect_x (ball_rect b) + \<lceil>vx b\<rceil>"
    if "real_of_int (rect_x (ball_rect b)) + vx b < 0" for b
    using that move_converts_sum [of truncating b b] t by blast
  have a: "rect_x (ball_rect (move truncating \<lparr>ball_rect = Rect 393 293 15 15, vx = 7 / 2, vy = - 1 / 2\<rparr>)) = 396"
    using f by (subst xn) (simp_all add: Rect_def)
  have b: "rect_y (ball_rect (move truncating \<lparr>ball_rect = Rect 393 293 15 15, vx = 7 / 2, vy = - 1 / 2\<rparr>)) = 292"
    using f by (subst yn) (simp_all add: Rect_def)
  have c: "rect_x (ball_rect (move truncating \<lparr>ball_rect = Rect (- 5) 293 15 15, vx = - 7 / 2, vy = 1 / 2\<rparr>)) = - 8"
    using f by (subst xm) (simp_all add: Rect_def)
  have d: "rect_y (ball_rect (move truncating \<lparr>ball_rect = Rect (- 5) 293 15 15, vx = - 7 / 2, vy = 1 / 2\<rparr>)) = 293"
    using f by (subst yn) (simp_all add: Rect_def)
  have e: "int_plus_float truncating 393 (7 / 2) = 393 + 7 / 2"
    "int_plus_float truncating 293 (- 1 / 2) = 293 + - 1 / 2"
    by (simp_all add: t)
  from t(1) e a b c d show ?thesis by (intro conjI)
qed

text \<open>
  Claim C10 as stated (a component of absolute value below 1 never changes the
  coordinate) fails whatever the conversion is: a ball at \<open>y = 293\<close> with \<open>vy = 1/2\<close> and
  a ball at \<open>y = 294\<close> with \<open>vy = -1/2\<close> have the same sum \<open>293.5\<close> (exact in doubles),
  so they end at the same coordinate and one of them has moved. With truncation it is
  the second (\<open>293\<close>), with rounding to nearest the first (\<open>294\<close>).
\<close>

theorem move_small_velocity_counterexample:
  "(\<forall>conv. \<not> (rect_y (ball_rect (move \<lparr>int_plus_float = (\<lambda>k v. real_of_int k + v), float_to_c_int = conv\<rparr>
                     \<lparr>ball_rect = Rect 393 293 15 15, vx = 7, vy = 1 / 2\<rparr>)) = 293
              \<and> rect_y (ball_rect (move \<lparr>int_plus_float = (\<lambda>k v. real_of_int k + v), float_to_c_int = conv\<rparr>
                     \<lparr>ball_rect = Rect 393 294 15 15, vx = 7, vy = - 1 / 2\<rparr>)) = 294))
   \<and> \<bar>- 1 / 2 :: real\<bar> < 1
   \<and> rect_y (ball_rect (move truncating \<lparr>ball_rect = Rect 393 294 15 15, vx = 7, vy = - 1 / 2\<rparr>)) = 293
   \<and> \<bar>1 / 2 :: real\<bar> < 1
   \<and> rect_y (ball_rect (move rounding \<lparr>ball_rect = Rect 393 293 15 15, vx = 7, vy = 1 / 2\<rparr>)) = 294"
proof -
  have s: "real_of_int 293 + 1 / 2 = real_of_int 294 + - 1 / 2" by simp
  have a: "\<forall>conv. \<not> (rect_y (ball_rect (move \<lparr>int_plus_float = (\<lambda>k v. real_of_int k + v), float_to_c_int = conv\<rparr>
                     \<lparr>ball_rect = Rect 393 293 15 15, vx = 7, vy = 1 / 2\<rparr>)) = 293
              \<and> rect_y (ball_rect (move \<lparr>int_plus_float = (\<lambda>k v. real_of_int k + v), float_to_c_int = conv\<rparr>
                     \<lparr>ball_rect = Rect 393 294 15 15, vx = 7, vy = - 1 / 2\<rparr>)) = 294)"
    unfolding move_coords by (simp add: Rect_def)
  have f: "\<lfloor>294 + - 1 / 2 :: real\<rfloor> = 293" by linarith
  have b: "rect_y (ball_rect (move truncating \<lparr>ball_rect = Rect 393 294 15 15, vx = 7, vy = - 1 / 2\<rparr>)) = 293"
    unfolding move_coords using f by (simp add: truncating_def Rect_def py_int_def)
  have r: "round (293 + 1 / 2 :: real) = 294" unfolding round_def by linarith
  have c: "rect_y (ball_rect (move rounding \<lparr>ball_rect = Rect 393 293 15 15, vx = 7, vy = 1 / 2\<rparr>)) = 294"
    unfolding move_coords using r by (simp add: rounding_def Rect_def)
  from a b c show ?thesis by simp
qed
section \<open>Tone generator\<close>























section \<open>Direction after a bounce\<close>

text \<open>The sign of the horizontal velocity after a paddle response, which does not depend
  on how the cosine is rounded: it is positive after the left paddle and negative after
  the right paddle.\<close>

lemma bounce_direction:
  "(colliderect (ball_rect b) (paddle_rect lp) \<and> vx b < 0
      \<longrightarrow> 0 < vx (fst (left_paddle_collision b lp)))
   \<and> (colliderect (ball_rect b) (paddle_rect rp) \<and> 0 < vx b
      \<longrightarrow> vx (fst (right_paddle_collision b rp)) < 0)"
proof -
  have l: "0 < cos (hit_offset (ball_rect b) (paddle_rect lp) * MAX_ANGLE)"
    using hit_angle_range cos_pos_in_range by blast
  have r: "0 < cos (hit_offset (ball_rect b) (paddle_rect rp) * MAX_ANGLE)"
    using hit_angle_range cos_pos_in_range by blast
  show ?thesis
    using l r
    by (simp add: left_paddle_collision_def right_paddle_collision_def Let_def BALL_SPEED_def)
qed

end
